theory Spec2Isabelle
  imports Complex_Main "HOL-Library.AList" "HOL-Library.Sublist"
begin

section \<open>Python values and string operations\<close>

text \<open>
  The library is Python. The values that flow through it are the decoded JSON bodies of
  the upstream API and the keyword arguments of the callers: \<open>None\<close>, booleans,
  unbounded integers, floats, strings, lists and dictionaries with string keys. A
  dictionary is an association list in insertion order; its keys are distinct in Python,
  a lookup reads the first entry of a key and an assignment is \<open>AList.update\<close>.
  Two more kinds of value occur inside the library: \<open>datetime\<close> objects and the
  instances of the entity models (\<open>PObj\<close>: the class name and the attributes in
  declaration order). A float is the real number it denotes (infinities and NaN are left
  out); no operation below depends on how float arithmetic rounds.
\<close>

datatype datetime = Datetime int int int int int int int "int option"

datatype pyval =
    PNone
  | PBool bool
  | PInt int
  | PFloat real
  | PStr string
  | PList "pyval list"
  | PDict "(string \<times> pyval) list"
  | PDatetime datetime
  | PObj string "(string \<times> pyval) list"

type_synonym pydict = "(string \<times> pyval) list"

text \<open>\<open>d.get(k, default)\<close>.\<close>

definition dict_get :: "pydict \<Rightarrow> string \<Rightarrow> pyval \<Rightarrow> pyval" where
  "dict_get d k fallback = (case map_of d k of Some v \<Rightarrow> v | None \<Rightarrow> fallback)"

text \<open>Truth value of an object, as \<open>not x\<close> and \<open>if x\<close> read it.\<close>

fun truthy :: "pyval \<Rightarrow> bool" where
  "truthy PNone = False"
| "truthy (PBool b) = b"
| "truthy (PInt n) = (n \<noteq> 0)"
| "truthy (PFloat x) = (x \<noteq> 0)"
| "truthy (PStr s) = (s \<noteq> [])"
| "truthy (PList xs) = (xs \<noteq> [])"
| "truthy (PDict d) = (d \<noteq> [])"
| "truthy (PDatetime t) = True"
| "truthy (PObj c fs) = True"

text \<open>The double quote character.\<close>

definition dquote :: char where
  "dquote = CHR 0x22"

text \<open>\<open>s.strip(chars)\<close>: every leading and every trailing character of \<open>chars\<close> goes.\<close>

definition py_strip :: "string \<Rightarrow> string \<Rightarrow> string" where
  "py_strip chars s =
     rev (dropWhile (\<lambda>c. c \<in> set chars) (rev (dropWhile (\<lambda>c. c \<in> set chars) s)))"

text \<open>\<open>s.split(sep)\<close> for a separator of one character: at every occurrence, empty
  pieces kept, never an empty list (so the last case of the inner \<open>case\<close> is never
  reached). A character that is not the separator joins the first piece of the rest.\<close>

fun py_split :: "char \<Rightarrow> string \<Rightarrow> string list" where
  "py_split sep [] = [[]]"
| "py_split sep (c # cs) =
     (if c = sep then [] # py_split sep cs
      else (case py_split sep cs of
              piece # pieces \<Rightarrow> (c # piece) # pieces
            | [] \<Rightarrow> [[c]]))"

text \<open>\<open>s.replace(old, new, 1)\<close> for single characters: the first occurrence only.\<close>

fun replace_first :: "char \<Rightarrow> char \<Rightarrow> string \<Rightarrow> string" where
  "replace_first old new [] = []"
| "replace_first old new (c # cs) =
     (if c = old then new # cs else c # replace_first old new cs)"

text \<open>\<open>s.endswith(suffix)\<close> and the substring test \<open>pat in s\<close>.\<close>

definition endswith :: "string \<Rightarrow> string \<Rightarrow> bool" where
  "endswith s suf = (length suf \<le> length s \<and> drop (length s - length suf) s = suf)"

fun str_in :: "string \<Rightarrow> string \<Rightarrow> bool" where
  "str_in pat [] = (pat = [])"
| "str_in pat (c # cs) = (prefix pat (c # cs) \<or> str_in pat cs)"

section \<open>models.py: the datetime normalizer\<close>

text \<open>
  \<^verbatim>\<open>
  def parse_flexible_datetime(value):
      if value is None or isinstance(value, datetime): return value
      if isinstance(value, str):
          if ' ' in value and 'T' not in value:
              value = value.replace(' ', 'T', 1)
          if value.endswith('+00') or value.endswith('-00'):
              value = value + ':00'
      return value
  \<close>
\<close>

definition parse_flexible_datetime :: "pyval \<Rightarrow> pyval" where
  "parse_flexible_datetime v =
     (case v of
        PStr s \<Rightarrow>
          (let s1 = (if CHR '' '' \<in> set s \<and> CHR ''T'' \<notin> set s
                     then replace_first (CHR '' '') (CHR ''T'') s else s);
               s2 = (if endswith s1 ''+00'' \<or> endswith s1 ''-00'' then s1 @ '':00'' else s1)
           in PStr s2)
      | _ \<Rightarrow> v)"

section \<open>models.py: the entity models\<close>

text \<open>
  The entity classes are declarations for the pydantic library: a class is a table of
  fields, each with its attribute name, its wire alias, its annotation and its default.
  \<open>validate\<close> is what constructing a model from keyword arguments does with such a
  table under \<open>ConfigDict(populate_by_name=True)\<close>:
  \<^item> a field is read under its alias, and under its attribute name when the alias is not
    among the keys;
  \<^item> a key that no field reads is ignored (pydantic's default \<open>extra='ignore'\<close>);
  \<^item> a field that is not supplied takes its default, unvalidated, and is reported as
    missing when it has none;
  \<^item> a supplied value is validated against the annotation; the errors of all fields are
    collected;
  \<^item> \<open>Optional[t]\<close> admits \<open>None\<close>; \<open>Union[a, b]\<close> admits what either member admits;
    \<open>List[t]\<close> admits a list of what \<open>t\<close> admits; a nested model admits a dictionary
    that validates, or an instance of the class itself;
  \<^item> \<open>Annotated[t, BeforeValidator(f)]\<close> validates \<open>f value\<close> against \<open>t\<close>;
  \<^item> \<open>str\<close> admits strings only. The validators of \<open>int\<close>, \<open>float\<close>, \<open>bool\<close> and
    \<open>datetime\<close>, with the conversions pydantic allows for each, are not fixed here: they
    are the parameter \<open>ext\<close>, and every result below holds whatever they accept.
\<close>

datatype scalar = SInt | SFloat | SBool | SDatetime

type_synonym ext = "scalar \<Rightarrow> pyval \<Rightarrow> pyval option"

datatype dflt = Required | Default pyval

datatype ftype =
    TStr
  | TScalar scalar
  | TAny
  | TDictStrAny
  | TOptional ftype
  | TList ftype
  | TUnion ftype ftype
  | TBefore "pyval \<Rightarrow> pyval" ftype
  | TModel string "fld list"
and fld = Field (fname: string) (falias: "string option") (ftype: ftype) (fdefault: dflt)

datatype vkind = Missing | Invalid

type_synonym verr = "string list \<times> vkind"

fun combine :: "'e list + 'a \<Rightarrow> 'e list + 'a list \<Rightarrow> 'e list + 'a list" where
  "combine (Inl e1) (Inl e2) = Inl (e1 @ e2)"
| "combine (Inl e1) (Inr xs) = Inl e1"
| "combine (Inr x) (Inl e2) = Inl e2"
| "combine (Inr x) (Inr xs) = Inr (x # xs)"

definition collect :: "('e list + 'a) list \<Rightarrow> 'e list + 'a list" where
  "collect rs = foldr combine rs (Inr [])"

definition lookup_field :: "string \<Rightarrow> string option \<Rightarrow> pydict \<Rightarrow> pyval option" where
  "lookup_field n a d =
     (case a of
        None \<Rightarrow> map_of d n
      | Some al \<Rightarrow> (case map_of d al of Some v \<Rightarrow> Some v | None \<Rightarrow> map_of d n))"

definition wire_name :: "string \<Rightarrow> string option \<Rightarrow> string" where
  "wire_name n a = (case a of Some al \<Rightarrow> al | None \<Rightarrow> n)"

primrec validate :: "ext \<Rightarrow> ftype \<Rightarrow> pyval \<Rightarrow> verr list + pyval"
  and validate_field :: "ext \<Rightarrow> fld \<Rightarrow> pydict \<Rightarrow> verr list + (string \<times> pyval)"
where
  "validate ext TStr v = (case v of PStr s \<Rightarrow> Inr v | _ \<Rightarrow> Inl [([], Invalid)])"
| "validate ext (TScalar k) v =
     (case ext k v of Some w \<Rightarrow> Inr w | None \<Rightarrow> Inl [([], Invalid)])"
| "validate ext TAny v = Inr v"
| "validate ext TDictStrAny v = (case v of PDict d \<Rightarrow> Inr v | _ \<Rightarrow> Inl [([], Invalid)])"
| "validate ext (TOptional t) v = (case v of PNone \<Rightarrow> Inr PNone | _ \<Rightarrow> validate ext t v)"
| "validate ext (TList t) v =
     (case v of
        PList xs \<Rightarrow> map_sum id PList (collect (map (validate ext t) xs))
      | _ \<Rightarrow> Inl [([], Invalid)])"
| "validate ext (TUnion a b) v =
     (case validate ext a v of
        Inr r \<Rightarrow> Inr r
      | Inl e1 \<Rightarrow> (case validate ext b v of Inr r \<Rightarrow> Inr r | Inl e2 \<Rightarrow> Inl (e1 @ e2)))"
| "validate ext (TBefore f t) v = validate ext t (f v)"
| "validate ext (TModel name fs) v =
     (case v of
        PDict d \<Rightarrow> map_sum id (PObj name) (collect (map (\<lambda>f. validate_field ext f d) fs))
      | PObj name' attrs \<Rightarrow> (if name' = name then Inr v else Inl [([], Invalid)])
      | _ \<Rightarrow> Inl [([], Invalid)])"
| "validate_field ext (Field n a t dv) d =
     (case lookup_field n a d of
        None \<Rightarrow>
          (case dv of
             Required \<Rightarrow> Inl [([wire_name n a], Missing)]
           | Default v \<Rightarrow> Inr (n, v))
      | Some v \<Rightarrow>
          (case validate ext t v of
             Inl es \<Rightarrow> Inl (map (\<lambda>(loc, k). (wire_name n a # loc, k)) es)
           | Inr w \<Rightarrow> Inr (n, w)))"

text \<open>\<open>FlexibleDatetime = Annotated[Optional[datetime], BeforeValidator(parse_flexible_datetime)]\<close>\<close>

definition FlexibleDatetime :: ftype where
  "FlexibleDatetime = TBefore parse_flexible_datetime (TOptional (TScalar SDatetime))"

text \<open>The field tables, in the order of the class bodies.\<close>

definition Tag_fields :: "fld list" where
  "Tag_fields = [
     Field ''id'' None TStr Required,
     Field ''label'' None (TOptional TStr) (Default PNone),
     Field ''slug'' None (TOptional TStr) (Default PNone),
     Field ''force_show'' (Some ''forceShow'') (TOptional (TScalar SBool)) (Default PNone),
     Field ''force_hide'' (Some ''forceHide'') (TOptional (TScalar SBool)) (Default PNone),
     Field ''is_carousel'' (Some ''isCarousel'') (TOptional (TScalar SBool)) (Default PNone),
     Field ''published_at'' (Some ''publishedAt'') (TOptional TStr) (Default PNone),
     Field ''created_at'' (Some ''createdAt'') (TOptional (TScalar SDatetime)) (Default PNone),
     Field ''updated_at'' (Some ''updatedAt'') (TOptional (TScalar SDatetime)) (Default PNone)]"

definition Market_fields :: "fld list" where
  "Market_fields = [
     Field ''id'' None TStr Required,
     Field ''question'' None TStr Required,
     Field ''condition_id'' (Some ''conditionId'') TStr Required,
     Field ''slug'' None TStr Required,
     Field ''twitter_card_image'' (Some ''twitterCardImage'') (TOptional TStr) (Default PNone),
     Field ''resolution_source'' (Some ''resolutionSource'') (TOptional TStr) (Default PNone),
     Field ''end_date_iso'' (Some ''endDateIso'') (TOptional TStr) (Default PNone),
     Field ''category'' None (TOptional TStr) (Default PNone),
     Field ''amm_type'' (Some ''ammType'') (TOptional TStr) (Default PNone),
     Field ''liquidity'' None (TOptional (TScalar SFloat)) (Default PNone),
     Field ''volume'' None (TOptional (TScalar SFloat)) (Default PNone),
     Field ''outcomes'' None (TUnion (TList TStr) TStr) Required,
     Field ''clob_token_ids'' (Some ''clobTokenIds'') (TUnion (TList TStr) TStr) Required,
     Field ''group_item_title'' (Some ''groupItemTitle'') (TOptional TStr) (Default PNone),
     Field ''group_item_threshold'' (Some ''groupItemThreshold'') (TOptional TStr) (Default PNone),
     Field ''question_id'' (Some ''questionId'') (TOptional TStr) (Default PNone),
     Field ''rewards_min_size'' (Some ''rewardsMinSize'') (TOptional (TScalar SFloat)) (Default PNone),
     Field ''rewards_max_spread'' (Some ''rewardsMaxSpread'') (TOptional (TScalar SFloat)) (Default PNone),
     Field ''spread'' None (TOptional (TScalar SFloat)) (Default PNone),
     Field ''last_trade_price'' (Some ''lastTradePrice'') (TOptional (TScalar SFloat)) (Default PNone),
     Field ''best_bid'' (Some ''bestBid'') (TOptional (TScalar SFloat)) (Default PNone),
     Field ''best_ask'' (Some ''bestAsk'') (TOptional (TScalar SFloat)) (Default PNone),
     Field ''active'' None (TScalar SBool) (Default (PBool True)),
     Field ''closed'' None (TScalar SBool) (Default (PBool False)),
     Field ''archived'' None (TScalar SBool) (Default (PBool False)),
     Field ''restricted'' None (TScalar SBool) (Default (PBool False)),
     Field ''event_id'' (Some ''eventId'') (TOptional TStr) (Default PNone)]"

definition Event_fields :: "fld list" where
  "Event_fields = [
     Field ''id'' None TStr Required,
     Field ''ticker'' None (TOptional TStr) (Default PNone),
     Field ''slug'' None TStr Required,
     Field ''title'' None TStr Required,
     Field ''description'' None (TOptional TStr) (Default PNone),
     Field ''image'' None (TOptional TStr) (Default PNone),
     Field ''icon'' None (TOptional TStr) (Default PNone),
     Field ''active'' None (TScalar SBool) (Default (PBool True)),
     Field ''closed'' None (TScalar SBool) (Default (PBool False)),
     Field ''archived'' None (TScalar SBool) (Default (PBool False)),
     Field ''new'' None (TScalar SBool) (Default (PBool False)),
     Field ''featured'' None (TScalar SBool) (Default (PBool False)),
     Field ''restricted'' None (TScalar SBool) (Default (PBool False)),
     Field ''start_date'' (Some ''startDate'') (TOptional (TScalar SDatetime)) (Default PNone),
     Field ''end_date'' (Some ''endDate'') (TOptional (TScalar SDatetime)) (Default PNone),
     Field ''creation_date'' (Some ''creationDate'') (TOptional (TScalar SDatetime)) (Default PNone),
     Field ''last_updated_at'' (Some ''lastUpdatedAt'') (TOptional (TScalar SDatetime)) (Default PNone),
     Field ''markets'' None (TList (TModel ''Market'' Market_fields)) (Default (PList [])),
     Field ''tags'' None (TList (TModel ''Tag'' Tag_fields)) (Default (PList []))]"

definition Team_fields :: "fld list" where
  "Team_fields = [
     Field ''id'' None (TScalar SInt) Required,
     Field ''name'' None TStr Required,
     Field ''league'' None TStr Required,
     Field ''record'' None (TOptional TStr) (Default PNone),
     Field ''logo'' None (TOptional TStr) (Default PNone),
     Field ''abbreviation'' None (TOptional TStr) (Default PNone),
     Field ''alias'' None (TOptional TStr) (Default PNone),
     Field ''created_at'' (Some ''createdAt'') (TOptional (TScalar SDatetime)) (Default PNone),
     Field ''updated_at'' (Some ''updatedAt'') (TOptional (TScalar SDatetime)) (Default PNone)]"

definition SportMetadata_fields :: "fld list" where
  "SportMetadata_fields = [
     Field ''sport'' None TStr Required,
     Field ''image'' None (TOptional TStr) (Default PNone),
     Field ''resolution'' None (TOptional TStr) (Default PNone),
     Field ''ordering'' None (TOptional TStr) (Default PNone),
     Field ''tags'' None (TOptional TStr) (Default PNone),
     Field ''series'' None (TOptional TStr) (Default PNone)]"

definition Series_fields :: "fld list" where
  "Series_fields = [
     Field ''id'' None TStr Required,
     Field ''title'' None TStr Required,
     Field ''slug'' None TStr Required,
     Field ''active'' None (TScalar SBool) Required,
     Field ''created_at'' (Some ''createdAt'') (TOptional (TScalar SDatetime)) (Default PNone),
     Field ''updated_at'' (Some ''updatedAt'') (TOptional (TScalar SDatetime)) (Default PNone)]"

definition Comment_fields :: "fld list" where
  "Comment_fields = [
     Field ''id'' None TStr Required,
     Field ''comment'' None TStr Required,
     Field ''user_address'' (Some ''userAddress'') TStr Required,
     Field ''user_name'' (Some ''userName'') (TOptional TStr) (Default PNone),
     Field ''proxy_wallet'' (Some ''proxyWallet'') (TOptional TStr) (Default PNone),
     Field ''market_id'' (Some ''marketId'') (TOptional TStr) (Default PNone),
     Field ''event_id'' (Some ''eventId'') (TOptional TStr) (Default PNone),
     Field ''created_at'' (Some ''createdAt'') (TOptional (TScalar SDatetime)) (Default PNone),
     Field ''updated_at'' (Some ''updatedAt'') (TOptional (TScalar SDatetime)) (Default PNone)]"

definition Profile_fields :: "fld list" where
  "Profile_fields = [
     Field ''proxy_wallet'' (Some ''proxyWallet'') TStr Required,
     Field ''display_name'' (Some ''displayName'') (TOptional TStr) (Default PNone),
     Field ''bio'' None (TOptional TStr) (Default PNone),
     Field ''image'' None (TOptional TStr) (Default PNone),
     Field ''created_at'' (Some ''createdAt'') (TOptional (TScalar SDatetime)) (Default PNone)]"

definition PublicSearchMarket_fields :: "fld list" where
  "PublicSearchMarket_fields = [
     Field ''id'' None TStr Required,
     Field ''question'' None TStr Required,
     Field ''condition_id'' (Some ''conditionId'') TStr Required,
     Field ''slug'' None TStr Required,
     Field ''resolution_source'' (Some ''resolutionSource'') (TOptional TStr) (Default PNone),
     Field ''end_date'' (Some ''endDate'') (TOptional (TScalar SDatetime)) (Default PNone),
     Field ''start_date'' (Some ''startDate'') (TOptional (TScalar SDatetime)) (Default PNone),
     Field ''image'' None (TOptional TStr) (Default PNone),
     Field ''icon'' None (TOptional TStr) (Default PNone),
     Field ''description'' None (TOptional TStr) (Default PNone),
     Field ''outcomes'' None (TOptional TStr) (Default PNone),
     Field ''outcome_prices'' (Some ''outcomePrices'') (TOptional TStr) (Default PNone),
     Field ''market_maker_address'' (Some ''marketMakerAddress'') (TOptional TStr) (Default PNone),
     Field ''closed_time'' (Some ''closedTime'') FlexibleDatetime (Default PNone),
     Field ''submitted_by'' None (TOptional TStr) (Default PNone),
     Field ''resolved_by'' (Some ''resolvedBy'') (TOptional TStr) (Default PNone),
     Field ''group_item_title'' (Some ''groupItemTitle'') (TOptional TStr) (Default PNone),
     Field ''group_item_threshold'' (Some ''groupItemThreshold'') (TOptional TStr) (Default PNone),
     Field ''question_id'' (Some ''questionID'') (TOptional TStr) (Default PNone),
     Field ''uma_end_date'' (Some ''umaEndDate'') (TOptional (TScalar SDatetime)) (Default PNone),
     Field ''order_price_min_tick_size'' (Some ''orderPriceMinTickSize'') (TOptional (TScalar SFloat)) (Default PNone),
     Field ''order_min_size'' (Some ''orderMinSize'') (TOptional (TScalar SFloat)) (Default PNone),
     Field ''uma_resolution_status'' (Some ''umaResolutionStatus'') (TOptional TStr) (Default PNone),
     Field ''volume_num'' (Some ''volumeNum'') (TOptional (TScalar SFloat)) (Default PNone),
     Field ''end_date_iso'' (Some ''endDateIso'') (TOptional TStr) (Default PNone),
     Field ''start_date_iso'' (Some ''startDateIso'') (TOptional TStr) (Default PNone),
     Field ''has_reviewed_dates'' (Some ''hasReviewedDates'') (TOptional (TScalar SBool)) (Default PNone),
     Field ''clob_token_ids'' (Some ''clobTokenIds'') (TOptional TStr) (Default PNone),
     Field ''uma_bond'' (Some ''umaBond'') (TOptional TStr) (Default PNone),
     Field ''uma_reward'' (Some ''umaReward'') (TOptional TStr) (Default PNone),
     Field ''volume_1wk_clob'' (Some ''volume1wkClob'') (TOptional (TScalar SFloat)) (Default PNone),
     Field ''volume_1mo_clob'' (Some ''volume1moClob'') (TOptional (TScalar SFloat)) (Default PNone),
     Field ''volume_1yr_clob'' (Some ''volume1yrClob'') (TOptional (TScalar SFloat)) (Default PNone),
     Field ''volume_clob'' (Some ''volumeClob'') (TOptional (TScalar SFloat)) (Default PNone),
     Field ''custom_liveness'' (Some ''customLiveness'') (TOptional (TScalar SInt)) (Default PNone),
     Field ''accepting_orders'' (Some ''acceptingOrders'') (TOptional (TScalar SBool)) (Default PNone),
     Field ''neg_risk_request_id'' (Some ''negRiskRequestID'') (TOptional TStr) (Default PNone),
     Field ''ready'' None (TOptional (TScalar SBool)) (Default PNone),
     Field ''funded'' None (TOptional (TScalar SBool)) (Default PNone),
     Field ''accepting_orders_timestamp'' (Some ''acceptingOrdersTimestamp'') (TOptional (TScalar SDatetime)) (Default PNone),
     Field ''cyom'' None (TOptional (TScalar SBool)) (Default PNone),
     Field ''pager_duty_notification_enabled'' (Some ''pagerDutyNotificationEnabled'') (TOptional (TScalar SBool)) (Default PNone),
     Field ''approved'' None (TOptional (TScalar SBool)) (Default PNone),
     Field ''rewards_min_size'' (Some ''rewardsMinSize'') (TOptional (TScalar SFloat)) (Default PNone),
     Field ''rewards_max_spread'' (Some ''rewardsMaxSpread'') (TOptional (TScalar SFloat)) (Default PNone),
     Field ''spread'' None (TOptional (TScalar SFloat)) (Default PNone),
     Field ''automatically_resolved'' (Some ''automaticallyResolved'') (TOptional (TScalar SBool)) (Default PNone),
     Field ''last_trade_price'' (Some ''lastTradePrice'') (TOptional (TScalar SFloat)) (Default PNone),
     Field ''best_ask'' (Some ''bestAsk'') (TOptional (TScalar SFloat)) (Default PNone),
     Field ''best_bid'' (Some ''bestBid'') (TOptional (TScalar SFloat)) (Default PNone),
     Field ''automatically_active'' (Some ''automaticallyActive'') (TOptional (TScalar SBool)) (Default PNone),
     Field ''clear_book_on_start'' (Some ''clearBookOnStart'') (TOptional (TScalar SBool)) (Default PNone),
     Field ''manual_activation'' (Some ''manualActivation'') (TOptional (TScalar SBool)) (Default PNone),
     Field ''neg_risk_other'' (Some ''negRiskOther'') (TOptional (TScalar SBool)) (Default PNone),
     Field ''uma_resolution_statuses'' (Some ''umaResolutionStatuses'') (TOptional TStr) (Default PNone),
     Field ''pending_deployment'' (Some ''pendingDeployment'') (TOptional (TScalar SBool)) (Default PNone),
     Field ''deploying'' None (TOptional (TScalar SBool)) (Default PNone),
     Field ''deploying_timestamp'' (Some ''deployingTimestamp'') (TOptional (TScalar SDatetime)) (Default PNone),
     Field ''rfq_enabled'' (Some ''rfqEnabled'') (TOptional (TScalar SBool)) (Default PNone),
     Field ''holding_rewards_enabled'' (Some ''holdingRewardsEnabled'') (TOptional (TScalar SBool)) (Default PNone),
     Field ''fees_enabled'' (Some ''feesEnabled'') (TOptional (TScalar SBool)) (Default PNone),
     Field ''requires_translation'' (Some ''requiresTranslation'') (TOptional (TScalar SBool)) (Default PNone),
     Field ''active'' None (TScalar SBool) (Default (PBool True)),
     Field ''closed'' None (TScalar SBool) (Default (PBool False)),
     Field ''archived'' None (TScalar SBool) (Default (PBool False)),
     Field ''restricted'' None (TScalar SBool) (Default (PBool False)),
     Field ''liquidity'' None (TOptional (TScalar SFloat)) (Default PNone),
     Field ''volume'' None (TOptional (TScalar SFloat)) (Default PNone),
     Field ''new'' None (TScalar SBool) (Default (PBool False)),
     Field ''featured'' None (TScalar SBool) (Default (PBool False)),
     Field ''neg_risk'' (Some ''negRisk'') (TOptional (TScalar SBool)) (Default PNone)]"

definition PublicSearchEvent_fields :: "fld list" where
  "PublicSearchEvent_fields = [
     Field ''id'' None TStr Required,
     Field ''ticker'' None (TOptional TStr) (Default PNone),
     Field ''slug'' None TStr Required,
     Field ''title'' None TStr Required,
     Field ''description'' None (TOptional TStr) (Default PNone),
     Field ''resolution_source'' (Some ''resolutionSource'') (TOptional TStr) (Default PNone),
     Field ''start_date'' (Some ''startDate'') (TOptional (TScalar SDatetime)) (Default PNone),
     Field ''creation_date'' (Some ''creationDate'') (TOptional (TScalar SDatetime)) (Default PNone),
     Field ''end_date'' (Some ''endDate'') (TOptional (TScalar SDatetime)) (Default PNone),
     Field ''image'' None (TOptional TStr) (Default PNone),
     Field ''icon'' None (TOptional TStr) (Default PNone),
     Field ''active'' None (TScalar SBool) (Default (PBool True)),
     Field ''closed'' None (TScalar SBool) (Default (PBool False)),
     Field ''archived'' None (TScalar SBool) (Default (PBool False)),
     Field ''new'' None (TScalar SBool) (Default (PBool False)),
     Field ''featured'' None (TScalar SBool) (Default (PBool False)),
     Field ''restricted'' None (TScalar SBool) (Default (PBool False)),
     Field ''liquidity'' None (TOptional (TScalar SFloat)) (Default PNone),
     Field ''volume'' None (TOptional (TScalar SFloat)) (Default PNone),
     Field ''open_interest'' (Some ''openInterest'') (TOptional (TScalar SFloat)) (Default PNone),
     Field ''created_at'' (Some ''createdAt'') (TOptional (TScalar SDatetime)) (Default PNone),
     Field ''updated_at'' (Some ''updatedAt'') (TOptional (TScalar SDatetime)) (Default PNone),
     Field ''competitive'' None (TOptional (TScalar SFloat)) (Default PNone),
     Field ''volume_24hr'' (Some ''volume24hr'') (TOptional (TScalar SFloat)) (Default PNone),
     Field ''volume_1wk'' (Some ''volume1wk'') (TOptional (TScalar SFloat)) (Default PNone),
     Field ''volume_1mo'' (Some ''volume1mo'') (TOptional (TScalar SFloat)) (Default PNone),
     Field ''volume_1yr'' (Some ''volume1yr'') (TOptional (TScalar SFloat)) (Default PNone),
     Field ''enable_order_book'' (Some ''enableOrderBook'') (TOptional (TScalar SBool)) (Default PNone),
     Field ''liquidity_clob'' (Some ''liquidityClob'') (TOptional (TScalar SFloat)) (Default PNone),
     Field ''neg_risk'' (Some ''negRisk'') (TOptional (TScalar SBool)) (Default PNone),
     Field ''neg_risk_market_id'' (Some ''negRiskMarketID'') (TOptional TStr) (Default PNone),
     Field ''comment_count'' (Some ''commentCount'') (TOptional (TScalar SInt)) (Default PNone),
     Field ''markets'' None (TList (TModel ''PublicSearchMarket'' PublicSearchMarket_fields)) (Default (PList []))]"

definition PublicSearchResponse_fields :: "fld list" where
  "PublicSearchResponse_fields = [
     Field ''events'' None (TList (TModel ''PublicSearchEvent'' PublicSearchEvent_fields)) (Default (PList [])),
     Field ''pagination'' None (TOptional TDictStrAny) (Default PNone)]"

section \<open>Exceptions\<close>

text \<open>
  Modelled from the spec: \<open>exceptions.py\<close> is not among the sources. The spec's taxonomy
  has \<open>NotFoundError\<close> (carries the status code), the generic API error (\<open>GammaAPIError\<close>
  in client.py: message, optional status code, optional response text) and
  \<open>ValidationError\<close>, all derived from \<open>GammaError\<close>. The other constructors are the
  exceptions of Python and pydantic that the modelled code can raise.
\<close>

datatype py_exc =
    NotFoundError string int
  | GammaAPIError string "int option" "string option"
  | ValidationError string
  | PydanticValidationError "verr list"
  | TypeError
  | KeyError string
  | ZeroDivisionError
  | OverflowError


text \<open>\<open>d[k]\<close>.\<close>

definition dict_item :: "pydict \<Rightarrow> string \<Rightarrow> py_exc + pyval" where
  "dict_item d k = (case map_of d k of Some v \<Rightarrow> Inr v | None \<Rightarrow> Inl (KeyError k))"

text \<open>
  \<open>a // b\<close> and \<open>a + 1\<close>. A boolean is an integer. Two integers give the floor of the
  quotient. With a float on either side the other operand is converted to a float first,
  which raises \<open>OverflowError\<close> for an integer beyond the range of the doubles (one that
  rounds to \<open>2 ^ 1024\<close> or more in magnitude), and the result is a float; its value is
  never read, since \<open>range\<close> refuses every float. A zero divisor is a
  \<open>ZeroDivisionError\<close>. An operand that is no number is a \<open>TypeError\<close>.
\<close>

fun as_int :: "pyval \<Rightarrow> int option" where
  "as_int (PInt n) = Some n"
| "as_int (PBool b) = Some (if b then 1 else 0)"
| "as_int v = None"

fun is_float :: "pyval \<Rightarrow> bool" where
  "is_float (PFloat x) = True"
| "is_float v = False"

definition is_number :: "pyval \<Rightarrow> bool" where
  "is_number v = (as_int v \<noteq> None \<or> is_float v)"

definition float_of_int :: "int \<Rightarrow> py_exc + real" where
  "float_of_int n =
     (if \<bar>n\<bar> \<ge> 2 ^ 1024 - 2 ^ 970 then Inl OverflowError else Inr (real_of_int n))"

definition as_float :: "pyval \<Rightarrow> py_exc + real" where
  "as_float v =
     (case v of
        PFloat x \<Rightarrow> Inr x
      | _ \<Rightarrow> (case as_int v of Some n \<Rightarrow> float_of_int n | None \<Rightarrow> Inl TypeError))"

definition py_floordiv :: "pyval \<Rightarrow> pyval \<Rightarrow> py_exc + pyval" where
  "py_floordiv a b =
     (case (as_int a, as_int b) of
        (Some x, Some y) \<Rightarrow> if y = 0 then Inl ZeroDivisionError else Inr (PInt (x div y))
      | _ \<Rightarrow>
        if is_number a \<and> is_number b
        then (case as_float a of
                Inl e \<Rightarrow> Inl e
              | Inr x \<Rightarrow>
                  (case as_float b of
                     Inl e \<Rightarrow> Inl e
                   | Inr y \<Rightarrow>
                       if y = 0 then Inl ZeroDivisionError
                       else Inr (PFloat (real_of_int \<lfloor>x / y\<rfloor>))))
        else Inl TypeError)"

definition py_add1 :: "pyval \<Rightarrow> py_exc + pyval" where
  "py_add1 a =
     (case as_int a of
        Some x \<Rightarrow> Inr (PInt (x + 1))
      | None \<Rightarrow> (case a of PFloat x \<Rightarrow> Inr (PFloat (x + 1)) | _ \<Rightarrow> Inl TypeError))"

text \<open>\<open>range(2, stop)\<close>: the integers from 2 up to \<open>stop - 1\<close>; a float is refused.\<close>

definition range2 :: "pyval \<Rightarrow> py_exc + int list" where
  "range2 stop = (case as_int stop of Some n \<Rightarrow> Inr [2..n - 1] | None \<Rightarrow> Inl TypeError)"

section \<open>Constructing the models\<close>

text \<open>
  \<open>Model(**data)\<close>: \<open>data\<close> has to be a mapping; its items are the keyword arguments.
\<close>

definition model_init :: "ext \<Rightarrow> string \<Rightarrow> fld list \<Rightarrow> pyval \<Rightarrow> py_exc + pyval" where
  "model_init ext name fs data =
     (case data of
        PDict d \<Rightarrow>
          (case validate ext (TModel name fs) (PDict d) of
             Inl es \<Rightarrow> Inl (PydanticValidationError es)
           | Inr ob \<Rightarrow> Inr ob)
      | _ \<Rightarrow> Inl TypeError)"

definition Market :: "ext \<Rightarrow> pyval \<Rightarrow> py_exc + pyval" where
  "Market ext = model_init ext ''Market'' Market_fields"

definition Event :: "ext \<Rightarrow> pyval \<Rightarrow> py_exc + pyval" where
  "Event ext = model_init ext ''Event'' Event_fields"

definition PublicSearchMarket :: "ext \<Rightarrow> pyval \<Rightarrow> py_exc + pyval" where
  "PublicSearchMarket ext = model_init ext ''PublicSearchMarket'' PublicSearchMarket_fields"

definition PublicSearchEvent :: "ext \<Rightarrow> pyval \<Rightarrow> py_exc + pyval" where
  "PublicSearchEvent ext = model_init ext ''PublicSearchEvent'' PublicSearchEvent_fields"

text \<open>
  The eleven classes of models.py, by name. Every one derives from \<open>GammaBaseModel\<close>.
\<close>

definition entity_models :: "(string \<times> fld list) list" where
  "entity_models =
     [(''Tag'', Tag_fields), (''Market'', Market_fields), (''Event'', Event_fields),
      (''Team'', Team_fields), (''SportMetadata'', SportMetadata_fields),
      (''Series'', Series_fields), (''Comment'', Comment_fields),
      (''Profile'', Profile_fields), (''PublicSearchMarket'', PublicSearchMarket_fields),
      (''PublicSearchEvent'', PublicSearchEvent_fields),
      (''PublicSearchResponse'', PublicSearchResponse_fields)]"

text \<open>
  A search response is read through its two attributes. \<open>PublicSearchResponse\<close> gives
  the instance as a record: \<open>events\<close> is a list and \<open>pagination\<close> is \<open>None\<close> or a
  dictionary on every instance that validates, so the other cases of \<open>attr_list\<close> and
  \<open>attr_dict\<close> are never reached.
\<close>

record PublicSearchResponse =
  events :: "pyval list"
  pagination :: "pydict option"

definition attr_list :: "pyval \<Rightarrow> string \<Rightarrow> pyval list" where
  "attr_list ob k =
     (case ob of
        PObj c fs \<Rightarrow> (case map_of fs k of Some (PList xs) \<Rightarrow> xs | _ \<Rightarrow> [])
      | _ \<Rightarrow> [])"

definition attr_dict :: "pyval \<Rightarrow> string \<Rightarrow> pydict option" where
  "attr_dict ob k =
     (case ob of
        PObj c fs \<Rightarrow> (case map_of fs k of Some (PDict d) \<Rightarrow> Some d | _ \<Rightarrow> None)
      | _ \<Rightarrow> None)"

definition PublicSearchResponse :: "ext \<Rightarrow> pyval \<Rightarrow> py_exc + PublicSearchResponse" where
  "PublicSearchResponse ext data =
     (case model_init ext ''PublicSearchResponse'' PublicSearchResponse_fields data of
        Inl e \<Rightarrow> Inl e
      | Inr ob \<Rightarrow>
          Inr \<lparr>events = attr_list ob ''events'', pagination = attr_dict ob ''pagination''\<rparr>)"

section \<open>client.py: the request\<close>

text \<open>
  The HTTP client (httpx) is outside the library. A transport answers a request (method,
  endpoint, the \<open>params\<close> keyword when one is passed) with a response or raises; it may
  depend on and change a state of its own, so every operation passes that state on. Of
  a response the library reads the status code, the headers, the body text and the
  decoded JSON body (\<open>json()\<close> raises on a body that does not decode: \<open>Inl\<close>, with the
  description of the exception). \<open>raise_for_status\<close> is httpx's: it raises
  \<open>HTTPStatusError\<close>, whose message is \<open>status_error\<close>, on every status outside 200..299.
\<close>

record response =
  status_code :: int
  headers :: "string \<Rightarrow> string option"
  body_text :: string
  json :: "string + pyval"
  status_error :: string

datatype transport_result = Raised string | Responded response

type_synonym 'st transport =
  "string \<Rightarrow> string \<Rightarrow> pydict option \<Rightarrow> 'st \<Rightarrow> transport_result \<times> 'st"

text \<open>What the \<open>try\<close> block of \<open>_request\<close> can raise.\<close>

datatype raised =
    RaisedNotFound string int
  | RaisedHTTPStatus string response
  | RaisedOther string

definition raise_for_status :: "response \<Rightarrow> raised option" where
  "raise_for_status r =
     (if 200 \<le> status_code r \<and> status_code r \<le> 299 then None
      else Some (RaisedHTTPStatus (status_error r) r))"

text \<open>
  \<^verbatim>\<open>
  def _request(self, method, endpoint, **kwargs):
      try:
          response = self._http_client.request(method, endpoint, **kwargs)
          if response.status_code == 404:
              raise NotFoundError(f"Resource not found: {endpoint}", status_code=404)
          response.raise_for_status()
          content_type = response.headers.get("Content-Type", "")
          if "application/json" in content_type:
              return response.json()
          else:
              return response.text.strip('"')
      except httpx.HTTPStatusError as e:
          raise GammaAPIError(f"API Error: {e}", status_code=e.response.status_code,
                              response_text=e.response.text)
      except GammaError:
          raise
      except Exception as e:
          raise GammaAPIError(f"Unexpected Error: {e}")
  \<close>
  The sync and the async client have the same text, up to \<open>await\<close>.
\<close>

definition request_try ::
  "'st transport \<Rightarrow> string \<Rightarrow> string \<Rightarrow> pydict option \<Rightarrow> 'st \<Rightarrow> (raised + pyval) \<times> 'st" where
  "request_try tr meth endpoint kwargs s =
     (case tr meth endpoint kwargs s of
        (Raised d, s') \<Rightarrow> (Inl (RaisedOther d), s')
      | (Responded r, s') \<Rightarrow>
          (if status_code r = 404
           then Inl (RaisedNotFound (''Resource not found: '' @ endpoint) 404)
           else
             (case raise_for_status r of
                Some e \<Rightarrow> Inl e
              | None \<Rightarrow>
                  (let content_type =
                         (case headers r ''Content-Type'' of Some h \<Rightarrow> h | None \<Rightarrow> [])
                   in if str_in ''application/json'' content_type
                      then (case json r of Inl d \<Rightarrow> Inl (RaisedOther d) | Inr v \<Rightarrow> Inr v)
                      else Inr (PStr (py_strip [dquote] (body_text r))))),
           s'))"

fun request_except :: "raised \<Rightarrow> py_exc" where
  "request_except (RaisedHTTPStatus msg r) =
     GammaAPIError (''API Error: '' @ msg) (Some (status_code r)) (Some (body_text r))"
| "request_except (RaisedNotFound msg code) = NotFoundError msg code"
| "request_except (RaisedOther d) = GammaAPIError (''Unexpected Error: '' @ d) None None"

definition request ::
  "'st transport \<Rightarrow> string \<Rightarrow> string \<Rightarrow> pydict option \<Rightarrow> 'st \<Rightarrow> (py_exc + pyval) \<times> 'st" where
  "request tr meth endpoint kwargs s =
     (case request_try tr meth endpoint kwargs s of
        (Inl e, s') \<Rightarrow> (Inl (request_except e), s')
      | (Inr v, s') \<Rightarrow> (Inr v, s'))"

section \<open>routes.py\<close>

text \<open>The templates that the modelled operations fill, \<open>.format(slug=slug)\<close> applied.\<close>

definition EVENTS_BY_SLUG :: "string \<Rightarrow> string" where
  "EVENTS_BY_SLUG slug = ''/events/slug/'' @ slug"

definition MARKETS_BY_SLUG :: "string \<Rightarrow> string" where
  "MARKETS_BY_SLUG slug = ''/markets/slug/'' @ slug"

definition PUBLIC_SEARCH :: string where
  "PUBLIC_SEARCH = ''/public-search''"

section \<open>client.py: the sub-clients and the facade\<close>

text \<open>
  \<^verbatim>\<open>
  def get_by_slug(self, slug):                      # EventsClient
      data = self._client._request("GET", EVENTS_BY_SLUG.format(slug=slug))
      return Event(**data)

  def get_by_slug(self, slug):                      # MarketsClient
      data = self._client._request("GET", MARKETS_BY_SLUG.format(slug=slug))
      if isinstance(data, list):
          return Market(**data[0]) if data else None
      return Market(**data)
  \<close>
\<close>

definition EventsClient_get_by_slug ::
  "ext \<Rightarrow> 'st transport \<Rightarrow> string \<Rightarrow> 'st \<Rightarrow> (py_exc + pyval) \<times> 'st" where
  "EventsClient_get_by_slug ext tr slug s =
     (case request tr ''GET'' (EVENTS_BY_SLUG slug) None s of
        (Inl e, s') \<Rightarrow> (Inl e, s')
      | (Inr data, s') \<Rightarrow> (Event ext data, s'))"

definition MarketsClient_get_by_slug ::
  "ext \<Rightarrow> 'st transport \<Rightarrow> string \<Rightarrow> 'st \<Rightarrow> (py_exc + pyval) \<times> 'st" where
  "MarketsClient_get_by_slug ext tr slug s =
     (case request tr ''GET'' (MARKETS_BY_SLUG slug) None s of
        (Inl e, s') \<Rightarrow> (Inl e, s')
      | (Inr data, s') \<Rightarrow>
          (case data of
             PList xs \<Rightarrow> (if xs \<noteq> [] then Market ext (hd xs) else Inr PNone, s')
           | _ \<Rightarrow> (Market ext data, s')))"

text \<open>
  \<^verbatim>\<open>
  def public_search(self, query, **params):
      params["q"] = query
      data = self._request("GET", PUBLIC_SEARCH, params=params)
      return PublicSearchResponse(**data)
  \<close>
\<close>

definition public_search ::
  "ext \<Rightarrow> 'st transport \<Rightarrow> string \<Rightarrow> pydict \<Rightarrow> 'st \<Rightarrow> (py_exc + PublicSearchResponse) \<times> 'st" where
  "public_search ext tr query params s =
     (case request tr ''GET'' PUBLIC_SEARCH (Some (AList.update ''q'' (PStr query) params)) s of
        (Inl e, s') \<Rightarrow> (Inl e, s')
      | (Inr data, s') \<Rightarrow> (PublicSearchResponse ext data, s'))"

text \<open>
  \<^verbatim>\<open>
  def public_search_all(self, query, **params):
      page = 1
      page_count = None
      api_params = {
          "page": page,
          "limit_per_type": params.get("limit_per_type", 20),
          "type": params.get("type", "events"),
          "sort": params.get("sort", "volume_24hr"),
      }
      for k,v in params.items():
          api_params[k] = v

      data = self.public_search(query, **api_params)
      if data.pagination is not None:
          page_count = data.pagination["totalResults"] // api_params["limit_per_type"] + 1

      if page_count is None or not data.pagination["hasMore"]:
          return data

      events = []
      events.extend(data.events)
      for page in range(2, page_count):
          api_params["page"] = page
          data = self.public_search(query, **api_params)
          events.extend(data.events)

      return PublicSearchResponse(events=events)
  \<close>
  \<open>params\<close> are the keyword arguments of the call, so no key of it is \<open>self\<close> or
  \<open>query\<close>. The last line builds a response from instances that are already validated
  and leaves \<open>pagination\<close> at its default.
\<close>

definition first_api_params :: "pydict \<Rightarrow> pydict" where
  "first_api_params params =
     foldl (\<lambda>api_params (k, v). AList.update k v api_params)
       [(''page'', PInt 1),
        (''limit_per_type'', dict_get params ''limit_per_type'' (PInt 20)),
        (''type'', dict_get params ''type'' (PStr ''events'')),
        (''sort'', dict_get params ''sort'' (PStr ''volume_24hr''))]
       params"

definition page_count_of :: "pydict \<Rightarrow> pydict \<Rightarrow> py_exc + pyval" where
  "page_count_of pg api_params =
     (case dict_item pg ''totalResults'' of
        Inl e \<Rightarrow> Inl e
      | Inr total_results \<Rightarrow>
          (case dict_item api_params ''limit_per_type'' of
             Inl e \<Rightarrow> Inl e
           | Inr limit_per_type \<Rightarrow>
               (case py_floordiv total_results limit_per_type of Inl e \<Rightarrow> Inl e | Inr q \<Rightarrow> py_add1 q)))"

fun fetch_pages ::
  "ext \<Rightarrow> 'st transport \<Rightarrow> string \<Rightarrow> pydict \<Rightarrow> int list \<Rightarrow> pyval list \<Rightarrow> 'st
     \<Rightarrow> (py_exc + pyval list) \<times> 'st" where
  "fetch_pages ext tr query api_params [] evs s = (Inr evs, s)"
| "fetch_pages ext tr query api_params (page # pages) evs s =
     (case public_search ext tr query (AList.update ''page'' (PInt page) api_params) s of
        (Inl e, s') \<Rightarrow> (Inl e, s')
      | (Inr data, s') \<Rightarrow>
          fetch_pages ext tr query (AList.update ''page'' (PInt page) api_params) pages
            (evs @ events data) s')"

definition public_search_all ::
  "ext \<Rightarrow> 'st transport \<Rightarrow> string \<Rightarrow> pydict \<Rightarrow> 'st \<Rightarrow> (py_exc + PublicSearchResponse) \<times> 'st" where
  "public_search_all ext tr query params s =
     (let api_params = first_api_params params in
      case public_search ext tr query api_params s of
        (Inl e, s1) \<Rightarrow> (Inl e, s1)
      | (Inr data, s1) \<Rightarrow>
          (case pagination data of
             None \<Rightarrow> (Inr data, s1)
           | Some pg \<Rightarrow>
               (case page_count_of pg api_params of
                  Inl e \<Rightarrow> (Inl e, s1)
                | Inr page_count \<Rightarrow>
                    (case dict_item pg ''hasMore'' of
                       Inl e \<Rightarrow> (Inl e, s1)
                     | Inr has_more \<Rightarrow>
                         if \<not> truthy has_more then (Inr data, s1)
                         else
                           (case range2 page_count of
                              Inl e \<Rightarrow> (Inl e, s1)
                            | Inr pages \<Rightarrow>
                                (case fetch_pages ext tr query api_params pages (events data) s1 of
                                   (Inl e, s2) \<Rightarrow> (Inl e, s2)
                                 | (Inr evs, s2) \<Rightarrow>
                                     (Inr \<lparr>events = evs, pagination = None\<rparr>, s2)))))))"

text \<open>
  \<^verbatim>\<open>
  def resolve_url(self, url):
      slug = self._extract_slug_from_url(url)
      if not slug:
          raise ValidationError(f"Invalid Polymarket URL: {url}")
      try:
          return self.markets.get_by_slug(slug)
      except Exception:
          pass
      try:
          return self.events.get_by_slug(slug)
      except Exception:
          pass
      return None

  def _extract_slug_from_url(self, url):
      try:
          parsed = urlparse(url)
          path_parts = parsed.path.strip("/").split("/")
          if len(path_parts) >= 2 and path_parts[0] in ["market", "event"]:
              return path_parts[-1]
          return None
      except Exception:
          return None
  \<close>
  \<open>urlparse\<close> is Python's; \<open>urlparse_path\<close> stands for the path component it finds in a
  URL, \<open>None\<close> when it raises.
\<close>

definition path_parts :: "string \<Rightarrow> string list" where
  "path_parts path = py_split (CHR ''/'') (py_strip ''/'' path)"

definition extract_slug_from_url :: "(string \<Rightarrow> string option) \<Rightarrow> string \<Rightarrow> string option" where
  "extract_slug_from_url urlparse_path url =
     (case urlparse_path url of
        None \<Rightarrow> None
      | Some path \<Rightarrow>
          if length (path_parts path) \<ge> 2 \<and> hd (path_parts path) \<in> set [''market'', ''event'']
          then Some (last (path_parts path)) else None)"

definition resolve_url ::
  "ext \<Rightarrow> (string \<Rightarrow> string option) \<Rightarrow> 'st transport \<Rightarrow> string \<Rightarrow> 'st
     \<Rightarrow> (py_exc + pyval) \<times> 'st" where
  "resolve_url ext urlparse_path tr url s =
     (case extract_slug_from_url urlparse_path url of
        None \<Rightarrow> (Inl (ValidationError (''Invalid Polymarket URL: '' @ url)), s)
      | Some slug \<Rightarrow>
          if slug = [] then (Inl (ValidationError (''Invalid Polymarket URL: '' @ url)), s)
          else
            (case MarketsClient_get_by_slug ext tr slug s of
               (Inr found, s1) \<Rightarrow> (Inr found, s1)
             | (Inl e1, s1) \<Rightarrow>
                 (case EventsClient_get_by_slug ext tr slug s1 of
                    (Inr found, s2) \<Rightarrow> (Inr found, s2)
                  | (Inl e2, s2) \<Rightarrow> (Inr PNone, s2))))"

section \<open>Notions used to state the properties\<close>

text \<open>The shapes \<open>YYYY-MM-DD\<close> and \<open>HH:MM:SS\<close> of a timestamp's date and time.\<close>

definition digit :: "char \<Rightarrow> bool" where
  "digit c = (c \<in> set ''0123456789'')"

fun date_form :: "string \<Rightarrow> bool" where
  "date_form [y1, y2, y3, y4, a, m1, m2, b, d1, d2] =
     (digit y1 \<and> digit y2 \<and> digit y3 \<and> digit y4 \<and> a = CHR ''-'' \<and>
      digit m1 \<and> digit m2 \<and> b = CHR ''-'' \<and> digit d1 \<and> digit d2)"
| "date_form s = False"

fun time_form :: "string \<Rightarrow> bool" where
  "time_form [h1, h2, a, m1, m2, b, s1, s2] =
     (digit h1 \<and> digit h2 \<and> a = CHR '':'' \<and> digit m1 \<and> digit m2 \<and> b = CHR '':'' \<and>
      digit s1 \<and> digit s2)"
| "time_form s = False"

text \<open>
  Transports for the examples, in the manner of the mocked routes of the test-suite: a
  server that answers from the endpoint and the parameters alone, behind a transport
  that records each request it receives.
\<close>

definition recording ::
  "(string \<Rightarrow> pydict option \<Rightarrow> transport_result) \<Rightarrow> (string \<times> pydict option) list transport" where
  "recording server meth endpoint kwargs seen = (server endpoint kwargs, seen @ [(endpoint, kwargs)])"

definition text_response :: "int \<Rightarrow> string \<Rightarrow> response" where
  "text_response code body =
     \<lparr>status_code = code, headers = (\<lambda>h. None), body_text = body,
      json = Inl ''Expecting value'', status_error = ''status error''\<rparr>"

definition json_response :: "int \<Rightarrow> pyval \<Rightarrow> response" where
  "json_response code body =
     \<lparr>status_code = code,
      headers = (\<lambda>h. if h = ''Content-Type'' then Some ''application/json'' else None),
      body_text = ''(json)'', json = Inr body, status_error = ''status error''\<rparr>"

text \<open>
  The keys a class reads from its keyword arguments: of each field the attribute name
  and, when it has one, the wire alias.
\<close>

definition keys_of :: "fld \<Rightarrow> string list" where
  "keys_of f = fname f # (case falias f of Some al \<Rightarrow> [al] | None \<Rightarrow> [])"

definition known_keys :: "fld list \<Rightarrow> string list" where
  "known_keys fs = concat (map keys_of fs)"

text \<open>A single string, or a list of strings: the two wire shapes of \<open>Union[List[str], str]\<close>.\<close>

fun is_PStr :: "pyval \<Rightarrow> bool" where
  "is_PStr (PStr s) = True"
| "is_PStr v = False"

fun str_or_strs :: "pyval \<Rightarrow> bool" where
  "str_or_strs (PStr s) = True"
| "str_or_strs (PList xs) = list_all is_PStr xs"
| "str_or_strs v = False"

text \<open>
  For the examples: scalar validators that accept nothing (no example supplies a value
  for an \<open>int\<close>, \<open>float\<close>, \<open>bool\<close> or \<open>datetime\<close> field).
\<close>

definition no_scalars :: ext where
  "no_scalars k v = None"

text \<open>
  Bodies for the examples: the valid market of tests/test_models.py, an event with its
  three mandatory fields, and a server that answers the slug routes with them. One market
  slug is answered with the object, one with a one-element array of it, one with an empty
  array; every other endpoint is a 404. \<open>polymarket_path\<close> is the path \<open>urlparse\<close> finds
  in a URL of the site.
\<close>

definition market_body :: pydict where
  "market_body =
     [(''id'', PStr ''1''), (''question'', PStr ''Q''), (''conditionId'', PStr ''0x1''),
      (''slug'', PStr ''slug''), (''outcomes'', PList [PStr ''A'', PStr ''B'']),
      (''clobTokenIds'', PList [PStr ''T1'', PStr ''T2''])]"

definition event_body :: pydict where
  "event_body =
     [(''id'', PStr ''7''), (''slug'', PStr ''foo-bar''), (''title'', PStr ''Foo'')]"

definition slug_server :: "string \<Rightarrow> pydict option \<Rightarrow> transport_result" where
  "slug_server endpoint kwargs =
     (if endpoint = ''/markets/slug/one'' then Responded (json_response 200 (PDict market_body))
      else if endpoint = ''/markets/slug/listed''
      then Responded (json_response 200 (PList [PDict market_body]))
      else if endpoint = ''/markets/slug/none'' then Responded (json_response 200 (PList []))
      else if endpoint = ''/events/slug/foo-bar''
      then Responded (json_response 200 (PDict event_body))
      else Responded (text_response 404 ''not found''))"

definition polymarket_path :: "string \<Rightarrow> string option" where
  "polymarket_path url =
     (if prefix ''https://polymarket.com'' url then Some (drop 22 url) else None)"

text \<open>
  An integer too large for a float, and a zero divisor, as \<open>//\<close> meets them.
\<close>

definition too_large :: "pyval \<Rightarrow> bool" where
  "too_large v =
     (case as_int v of Some n \<Rightarrow> \<bar>n\<bar> \<ge> 2 ^ 1024 - 2 ^ 970 | None \<Rightarrow> False)"

definition is_zero :: "pyval \<Rightarrow> bool" where
  "is_zero v = (as_int v = Some 0 \<or> v = PFloat 0)"

text \<open>
  Fetching in order: the search pages for a list of parameter dictionaries, one request
  after the other, each from the state the one before left behind; the first failure
  ends the sequence with that failure.
\<close>

fun fetch_in_order ::
  "ext \<Rightarrow> 'st transport \<Rightarrow> string \<Rightarrow> pydict list \<Rightarrow> 'st
     \<Rightarrow> (py_exc + PublicSearchResponse list) \<times> 'st" where
  "fetch_in_order ext tr query [] s = (Inr [], s)"
| "fetch_in_order ext tr query (p # ps) s =
     (case public_search ext tr query p s of
        (Inl e, s') \<Rightarrow> (Inl e, s')
      | (Inr r, s') \<Rightarrow>
          (case fetch_in_order ext tr query ps s' of
             (Inl e, s'') \<Rightarrow> (Inl e, s'')
           | (Inr rs, s'') \<Rightarrow> (Inr (r # rs), s'')))"

text \<open>
  Search servers for the examples. \<open>search_server\<close> answers page 1 with one event and
  every other page with another, announcing 45 results and more to come; \<open>fixed_server\<close>
  answers every request with one body: \<open>last_page_body\<close> has no event, 45 results and
  nothing more to come, \<open>bare_body\<close> has no event and no pagination.
\<close>

definition search_body :: "string \<Rightarrow> bool \<Rightarrow> pyval" where
  "search_body event_id has_more =
     PDict [(''events'',
             PList [PDict [(''id'', PStr event_id), (''slug'', PStr ''s''), (''title'', PStr ''t'')]]),
            (''pagination'', PDict [(''totalResults'', PInt 45), (''hasMore'', PBool has_more)])]"

definition search_server :: "string \<Rightarrow> pydict option \<Rightarrow> transport_result" where
  "search_server endpoint kwargs =
     (if endpoint = ''/public-search''
      then (case kwargs of
              Some ps \<Rightarrow>
                if map_of ps ''page'' = Some (PInt 1)
                then Responded (json_response 200 (search_body ''1'' True))
                else Responded (json_response 200 (search_body ''2'' True))
            | None \<Rightarrow> Responded (text_response 404 ''not found''))
      else Responded (text_response 404 ''not found''))"

definition fixed_server :: "pyval \<Rightarrow> string \<Rightarrow> pydict option \<Rightarrow> transport_result" where
  "fixed_server body endpoint kwargs = Responded (json_response 200 body)"

definition last_page_body :: pyval where
  "last_page_body =
     PDict [(''events'', PList []),
            (''pagination'', PDict [(''totalResults'', PInt 45), (''hasMore'', PBool False)])]"

definition bare_body :: pyval where
  "bare_body = PDict [(''events'', PList [])]"

section \<open>The datetime normalizer\<close>

lemma replace_first_append:
  "old \<notin> set xs \<Longrightarrow> replace_first old new (xs @ old # ys) = xs @ new # ys"
  by (induction xs) auto

lemma endswith_iff: "endswith s suf \<longleftrightarrow> (\<exists>p. s = p @ suf)"
proof
  assume "endswith s suf"
  then have "s = take (length s - length suf) s @ suf"
    by (metis append_take_drop_id endswith_def)
  then show "\<exists>p. s = p @ suf" ..
next
  assume "\<exists>p. s = p @ suf"
  then show "endswith s suf" by (auto simp: endswith_def)
qed

lemma endswith_append: "endswith (xs @ suf) suf"
  by (auto simp: endswith_iff)

lemma digit_not_sep: "digit c \<Longrightarrow> c \<noteq> CHR '' '' \<and> c \<noteq> CHR ''T''"
  by (auto simp: digit_def)

lemma date_form_chars: "date_form d \<Longrightarrow> CHR '' '' \<notin> set d \<and> CHR ''T'' \<notin> set d"
  by (erule date_form.elims) (auto dest: digit_not_sep)

lemma time_form_chars: "time_form t \<Longrightarrow> CHR ''T'' \<notin> set t"
  by (erule time_form.elims) (auto dest: digit_not_sep)

text \<open>
  Both rules on one input: a string with a space after a prefix free of spaces and of
  \<open>T\<close>, no \<open>T\<close> behind it either, and a truncated offset at its end.
\<close>

lemma normalize_spaced:
  assumes "CHR '' '' \<notin> set d" "CHR ''T'' \<notin> set d" "CHR ''T'' \<notin> set r"
    and "endswith r ''+00'' \<or> endswith r ''-00''"
  shows "parse_flexible_datetime (PStr (d @ CHR '' '' # r)) = PStr (d @ CHR ''T'' # r @ '':00'')"
proof -
  have e: "endswith (d @ CHR ''T'' # r) suf" if "endswith r suf" for suf
    using that by (auto simp: endswith_iff intro: exI [of _ "d @ CHR ''T'' # p" for p])
  have "replace_first (CHR '' '') (CHR ''T'') (d @ CHR '' '' # r) = d @ CHR ''T'' # r"
    using assms(1) by (rule replace_first_append)
  with assms e show ?thesis
    by (auto simp: parse_flexible_datetime_def Let_def)
qed

text \<open>
  C7. For every string \<open>YYYY-MM-DD HH:MM:SS+00\<close> or \<open>YYYY-MM-DD HH:MM:SS-00\<close> the
  normalizer returns the ISO form \<open>YYYY-MM-DDTHH:MM:SS+00:00\<close>, respectively
  \<open>...-00:00\<close>: the first space becomes \<open>T\<close> and \<open>:00\<close> completes the offset, both
  rules applied to the one input.
\<close>

theorem parse_flexible_datetime_spaced_truncated:
  assumes "date_form d" and "time_form t" and "sg = CHR ''+'' \<or> sg = CHR ''-''"
  shows "parse_flexible_datetime (PStr (d @ '' '' @ t @ sg # ''00'')) =
         PStr (d @ ''T'' @ t @ sg # ''00:00'')"
proof -
  have "endswith (t @ sg # ''00'') ''+00'' \<or> endswith (t @ sg # ''00'') ''-00''"
    using assms(3) endswith_append [of t "''+00''"] endswith_append [of t "''-00''"] by auto
  moreover have "CHR ''T'' \<notin> set (t @ sg # ''00'')"
    using time_form_chars [OF assms(2)] assms(3) by auto
  ultimately show ?thesis
    using normalize_spaced [of d "t @ sg # ''00''"] date_form_chars [OF assms(1)] by simp
qed

theorem parse_flexible_datetime_spaced_truncated_witness:
  "date_form ''2026-01-30'' \<and> time_form ''19:37:52'' \<and>
   parse_flexible_datetime (PStr ''2026-01-30 19:37:52+00'') = PStr ''2026-01-30T19:37:52+00:00'' \<and>
   parse_flexible_datetime (PStr ''2023-04-01 12:00:00-00'') = PStr ''2023-04-01T12:00:00-00:00''"
  using parse_flexible_datetime_spaced_truncated [of "''2026-01-30''" "''19:37:52''" "CHR ''+''"]
    parse_flexible_datetime_spaced_truncated [of "''2023-04-01''" "''12:00:00''" "CHR ''-''"]
  by (simp add: digit_def)

section \<open>The request: errors and text bodies\<close>

lemma text_status: "status_code (text_response c b) = c" "body_text (text_response c b) = b"
  "headers (text_response c b) h = None" "status_error (text_response c b) = ''status error''"
  by (simp_all add: text_response_def)

lemma json_status: "status_code (json_response c b) = c" "json (json_response c b) = Inr b"
  "headers (json_response c b) ''Content-Type'' = Some ''application/json''"
  by (simp_all add: json_response_def)

lemma request_cases:
  "request tr meth endpoint kwargs s =
     (case tr meth endpoint kwargs s of
        (Raised d, s') \<Rightarrow> (Inl (GammaAPIError (''Unexpected Error: '' @ d) None None), s')
      | (Responded r, s') \<Rightarrow>
          (if status_code r = 404
           then Inl (NotFoundError (''Resource not found: '' @ endpoint) 404)
           else if \<not> (200 \<le> status_code r \<and> status_code r \<le> 299)
           then Inl (GammaAPIError (''API Error: '' @ status_error r) (Some (status_code r))
                  (Some (body_text r)))
           else if str_in ''application/json''
                     (case headers r ''Content-Type'' of Some h \<Rightarrow> h | None \<Rightarrow> [])
           then (case json r of
                   Inl d \<Rightarrow> Inl (GammaAPIError (''Unexpected Error: '' @ d) None None)
                 | Inr v \<Rightarrow> Inr v)
           else Inr (PStr (py_strip [dquote] (body_text r))), s'))"
  by (auto simp: request_def request_try_def raise_for_status_def Let_def
      split: prod.splits transport_result.splits sum.splits)



lemma takeWhile_eq_replicate: "takeWhile (\<lambda>c. c = q) xs = replicate (length (takeWhile (\<lambda>c. c = q) xs)) q"
  by (induction xs) auto

lemma py_strip_decomp:
  "\<exists>m n. s = replicate m q @ py_strip [q] s @ replicate n q"
proof -
  let ?P = "\<lambda>c. c = q"
  let ?a = "dropWhile ?P s"
  let ?b = "dropWhile ?P (rev ?a)"
  have r: "py_strip [q] s = rev ?b" by (simp add: py_strip_def)
  have "rev ?a = takeWhile ?P (rev ?a) @ ?b" by simp
  then have "?a = rev ?b @ rev (takeWhile ?P (rev ?a))"
    by (metis rev_append rev_rev_ident)
  moreover have "s = takeWhile ?P s @ ?a" by simp
  ultimately have "s = takeWhile ?P s @ rev ?b @ rev (takeWhile ?P (rev ?a))" by simp
  moreover have "takeWhile ?P s = replicate (length (takeWhile ?P s)) q"
    by (rule takeWhile_eq_replicate)
  moreover have "rev (takeWhile ?P (rev ?a)) = replicate (length (takeWhile ?P (rev ?a))) q"
    by (metis takeWhile_eq_replicate rev_replicate)
  ultimately show ?thesis using r by metis
qed

lemma py_strip_ends:
  "py_strip [q] s = [] \<or> (hd (py_strip [q] s) \<noteq> q \<and> last (py_strip [q] s) \<noteq> q)"
proof (cases "py_strip [q] s = []")
  case True then show ?thesis by simp
next
  case False
  let ?P = "\<lambda>c. c = q"
  let ?a = "dropWhile ?P s"
  let ?b = "dropWhile ?P (rev ?a)"
  have r: "py_strip [q] s = rev ?b" by (simp add: py_strip_def)
  with False have b: "?b \<noteq> []" by simp
  then have "hd ?b \<noteq> q" using hd_dropWhile [of ?P "rev ?a"] by blast
  then have l: "last (rev ?b) \<noteq> q" using b by (simp add: last_rev)
  have "rev ?a = takeWhile ?P (rev ?a) @ ?b" by simp
  then have "?a = rev ?b @ rev (takeWhile ?P (rev ?a))"
    by (metis rev_append rev_rev_ident)
  then have "hd ?a = hd (rev ?b)" using b by (metis hd_append2 rev_is_Nil_conv)
  moreover have "?a \<noteq> []"
  proof
    assume e: "?a = []"
    have "?b = []" unfolding e by simp
    with b show False ..
  qed
  then have "hd ?a \<noteq> q" using hd_dropWhile [of ?P s] by blast
  ultimately show ?thesis using l r by simp
qed

text \<open>
  C9, as amended. For every response with a status in 200..299 whose Content-Type does
  not contain \<open>application/json\<close>, the value returned is the body text without its
  leading and its trailing double quotes, however many stand on either side: the text is
  some quotes, the value, some quotes, and the value neither starts nor ends with one.
\<close>

theorem request_text_body:
  assumes "tr meth endpoint kwargs s = (Responded r, s')"
    and "200 \<le> status_code r" and "status_code r \<le> 299"
    and "\<not> str_in ''application/json'' (case headers r ''Content-Type'' of Some h \<Rightarrow> h | None \<Rightarrow> [])"
  shows "\<exists>res m n. request tr meth endpoint kwargs s = (Inr (PStr res), s') \<and>
           body_text r = replicate m dquote @ res @ replicate n dquote \<and>
           (res = [] \<or> (hd res \<noteq> dquote \<and> last res \<noteq> dquote))"
proof -
  have "request tr meth endpoint kwargs s = (Inr (PStr (py_strip [dquote] (body_text r))), s')"
    using assms by (simp add: request_cases)
  then show ?thesis
    using py_strip_decomp [of "body_text r" dquote] py_strip_ends [of dquote "body_text r"] by blast
qed

theorem request_text_body_witness:
  "recording (\<lambda>e k. Responded (text_response 200 [dquote, CHR ''O'', CHR ''K'', dquote])) ''GET'' ''/status'' None []
     = (Responded (text_response 200 [dquote, CHR ''O'', CHR ''K'', dquote]), [(''/status'', None)]) \<and>
   (\<exists>res m n. request (recording (\<lambda>e k. Responded (text_response 200 [dquote, CHR ''O'', CHR ''K'', dquote])))
        ''GET'' ''/status'' None [] = (Inr (PStr res), [(''/status'', None)]) \<and>
      [dquote, CHR ''O'', CHR ''K'', dquote] = replicate m dquote @ res @ replicate n dquote \<and>
      (res = [] \<or> (hd res \<noteq> dquote \<and> last res \<noteq> dquote)))"
proof -
  let ?r = "text_response 200 [dquote, CHR ''O'', CHR ''K'', dquote]"
  let ?tr = "recording (\<lambda>e k. Responded ?r)"
  have h: "?tr ''GET'' ''/status'' None [] = (Responded ?r, [(''/status'', None)])"
    by (simp add: recording_def)
  have n: "\<not> str_in ''application/json'' (case headers ?r ''Content-Type'' of Some h \<Rightarrow> h | None \<Rightarrow> [])"
    by (simp add: text_status)
  show ?thesis
    using h n request_text_body [of ?tr "''GET''" "''/status''" None "[]" ?r "[(''/status'', None)]"]
    by (simp add: text_status)
qed

text \<open>
  The claim as stated, one surrounding pair at most, fails: of two pairs both go, and a
  quote with no partner at the other end goes as well.
\<close>

theorem request_text_strips_every_quote:
  "request (recording (\<lambda>e k. Responded (text_response 200 [dquote, dquote, CHR ''a'', dquote, dquote])))
      ''GET'' ''/status'' None [] = (Inr (PStr ''a''), [(''/status'', None)]) \<and>
   request (recording (\<lambda>e k. Responded (text_response 200 [dquote, CHR ''a''])))
      ''GET'' ''/status'' None [] = (Inr (PStr ''a''), [(''/status'', None)])"
  by (simp add: request_def request_try_def raise_for_status_def recording_def text_status
      py_strip_def dquote_def)

section \<open>Constructing the entity models\<close>

lemma isl_combine: "isl (combine a b) \<longleftrightarrow> isl a \<or> isl b"
  by (cases a; cases b) simp_all

lemma isl_collect: "isl (collect rs) \<longleftrightarrow> list_ex isl rs"
  by (induction rs) (simp_all add: collect_def isl_combine)

lemma validate_field_name:
  "validate_field ext f d = Inr (n, v) \<Longrightarrow> n = fname f"
  by (cases f) (auto split: option.splits dflt.splits sum.splits)

lemma collect_fields_names:
  "collect (map (\<lambda>f. validate_field ext f d) fs) = Inr attrs \<Longrightarrow> map fst attrs = map fname fs"
proof (induction fs arbitrary: attrs)
  case Nil
  then show ?case by (simp add: collect_def)
next
  case (Cons f fs)
  from Cons.prems obtain p ps where
    p: "validate_field ext f d = Inr p" and
    ps: "collect (map (\<lambda>f. validate_field ext f d) fs) = Inr ps" and
    a: "attrs = p # ps"
    by (auto simp: collect_def elim!: combine.elims)
  from p have "fst p = fname f" by (cases p) (auto dest: validate_field_name)
  with Cons.IH [OF ps] a show ?case by simp
qed

lemma lookup_field_agree:
  "\<forall>k \<in> set (keys_of f). map_of d' k = map_of d k \<Longrightarrow>
   lookup_field (fname f) (falias f) d' = lookup_field (fname f) (falias f) d"
  by (cases f) (auto simp: keys_of_def lookup_field_def split: option.splits)

lemma validate_field_agree:
  assumes "\<forall>k \<in> set (keys_of f). map_of d' k = map_of d k"
  shows "validate_field ext f d' = validate_field ext f d"
proof (cases f)
  case (Field n a t dv)
  with lookup_field_agree [OF assms] show ?thesis by simp
qed

lemma model_init_agree:
  assumes "\<forall>k \<in> set (known_keys fs). map_of d' k = map_of d k"
  shows "model_init ext name fs (PDict d') = model_init ext name fs (PDict d)"
proof -
  have "validate_field ext f d' = validate_field ext f d" if "f \<in> set fs" for f
    using assms that by (intro validate_field_agree) (auto simp: known_keys_def)
  then have eq: "map (\<lambda>f. validate_field ext f d') fs = map (\<lambda>f. validate_field ext f d) fs"
    by simp
  show ?thesis by (simp only: model_init_def validate.simps pyval.case eq)
qed

lemma model_init_attrs:
  assumes "model_init ext name fs (PDict d) = Inr ob"
  shows "\<exists>attrs. ob = PObj name attrs \<and> map fst attrs = map fname fs"
proof -
  from assms obtain attrs where
    "collect (map (\<lambda>f. validate_field ext f d) fs) = Inr attrs" and "ob = PObj name attrs"
    by (cases "collect (map (\<lambda>f. validate_field ext f d) fs)")
       (auto simp: model_init_def)
  then show ?thesis using collect_fields_names by blast
qed

text \<open>
  C10. For every entity model: two mappings that agree on every key the class reads (the
  attribute names and the wire aliases of its fields), whatever other keys either holds,
  construct alike, so a key that is neither a field name nor an alias changes nothing and
  causes no failure; and the attributes of a constructed object are the declared fields,
  in order, so no unknown key is kept.
\<close>

theorem unknown_keys_ignored:
  assumes "(name, fs) \<in> set entity_models"
    and "\<forall>k \<in> set (known_keys fs). map_of d' k = map_of d k"
  shows "model_init ext name fs (PDict d') = model_init ext name fs (PDict d) \<and>
         (\<forall>ob. model_init ext name fs (PDict d') = Inr ob \<longrightarrow>
            (\<exists>attrs. ob = PObj name attrs \<and> map fst attrs = map fname fs))"
  using model_init_agree [OF assms(2)] model_init_attrs by blast

lemma validate_strs: "list_all is_PStr xs \<Longrightarrow> collect (map (validate ext TStr) xs) = Inr xs"
proof (induction xs)
  case Nil
  then show ?case by (simp add: collect_def)
next
  case (Cons x xs)
  then obtain s where "x = PStr s" by (cases x) auto
  with Cons show ?case by (simp add: collect_def)
qed

lemma validate_str_or_strs:
  "str_or_strs v \<Longrightarrow> validate ext (TUnion (TList TStr) TStr) v = Inr v"
  by (cases v) (simp_all add: validate_strs)

lemma required_missing:
  assumes "Field n a t Required \<in> set fs" and "lookup_field n a d = None"
  shows "\<exists>es. model_init ext name fs (PDict d) = Inl (PydanticValidationError es)"
proof -
  have "isl (validate_field ext (Field n a t Required) d)" using assms(2) by simp
  with assms(1) have "isl (collect (map (\<lambda>f. validate_field ext f d) fs))"
    unfolding isl_collect list_ex_iff by (metis (no_types, lifting) imageI set_map)
  then show ?thesis
    by (cases "collect (map (\<lambda>f. validate_field ext f d) fs)") (auto simp: model_init_def)
qed

lemma invalid_supplied:
  assumes "Field n a t dv \<in> set fs" and "lookup_field n a d = Some v" and "isl (validate ext t v)"
  shows "\<exists>es. model_init ext name fs (PDict d) = Inl (PydanticValidationError es)"
proof -
  have "isl (validate_field ext (Field n a t dv) d)"
    using assms(2,3) by (cases "validate ext t v") auto
  with assms(1) have "isl (collect (map (\<lambda>f. validate_field ext f d) fs))"
    unfolding isl_collect list_ex_iff by (metis (no_types, lifting) imageI set_map)
  then show ?thesis
    by (cases "collect (map (\<lambda>f. validate_field ext f d) fs)") (auto simp: model_init_def)
qed

lemma Market_required:
  "Field ''id'' None TStr Required \<in> set Market_fields"
  "Field ''question'' None TStr Required \<in> set Market_fields"
  "Field ''condition_id'' (Some ''conditionId'') TStr Required \<in> set Market_fields"
  "Field ''slug'' None TStr Required \<in> set Market_fields"
  "Field ''outcomes'' None (TUnion (TList TStr) TStr) Required \<in> set Market_fields"
  "Field ''clob_token_ids'' (Some ''clobTokenIds'') (TUnion (TList TStr) TStr) Required \<in> set Market_fields"
  by (simp_all add: Market_fields_def)

lemma Market_absent_fails:
  assumes "map_of d ''id'' = None \<or> map_of d ''question'' = None \<or>
      (map_of d ''conditionId'' = None \<and> map_of d ''condition_id'' = None) \<or>
      map_of d ''slug'' = None \<or> map_of d ''outcomes'' = None \<or>
      (map_of d ''clobTokenIds'' = None \<and> map_of d ''clob_token_ids'' = None)"
  shows "\<exists>es. Market ext (PDict d) = Inl (PydanticValidationError es)"
  using assms unfolding Market_def
  by (elim disjE conjE) (rule required_missing, rule Market_required, simp add: lookup_field_def)+

lemma Market_invalid_str_fails:
  assumes "(map_of d ''id'' = Some v \<or> map_of d ''question'' = Some v \<or>
      map_of d ''conditionId'' = Some v \<or> map_of d ''slug'' = Some v)" and "\<not> is_PStr v"
  shows "\<exists>es. Market ext (PDict d) = Inl (PydanticValidationError es)"
proof -
  have iv: "isl (validate ext TStr v)" using assms(2) by (cases v) auto
  show ?thesis using assms(1) unfolding Market_def
    by (elim disjE) (rule invalid_supplied [OF _ _ iv], rule Market_required, simp add: lookup_field_def)+
qed

lemma Market_only_mandatory:
  assumes dom: "dom (map_of d) =
      {''id'', ''question'', ''conditionId'', ''slug'', ''outcomes'', ''clobTokenIds''}"
    and v: "map_of d ''id'' = Some (PStr i)" "map_of d ''question'' = Some (PStr q)"
      "map_of d ''conditionId'' = Some (PStr c)" "map_of d ''slug'' = Some (PStr sl)"
      "map_of d ''outcomes'' = Some oc" "map_of d ''clobTokenIds'' = Some tk"
    and s: "str_or_strs oc" "str_or_strs tk"
  shows "Market ext (PDict d) = Inr (PObj ''Market''
     [(''id'', PStr i), (''question'', PStr q), (''condition_id'', PStr c),
       (''slug'', PStr sl), (''twitter_card_image'', PNone), (''resolution_source'', PNone),
       (''end_date_iso'', PNone), (''category'', PNone), (''amm_type'', PNone),
       (''liquidity'', PNone), (''volume'', PNone), (''outcomes'', oc),
       (''clob_token_ids'', tk), (''group_item_title'', PNone),
       (''group_item_threshold'', PNone), (''question_id'', PNone),
       (''rewards_min_size'', PNone), (''rewards_max_spread'', PNone), (''spread'', PNone),
       (''last_trade_price'', PNone), (''best_bid'', PNone), (''best_ask'', PNone),
       (''active'', PBool True), (''closed'', PBool False), (''archived'', PBool False),
       (''restricted'', PBool False), (''event_id'', PNone)])"
proof -
  have absent: "map_of d k = None"
    if "k \<notin> {''id'', ''question'', ''conditionId'', ''slug'', ''outcomes'', ''clobTokenIds''}" for k
    using that dom by (metis domIff)
  have u: "validate ext (TUnion (TList TStr) TStr) oc = Inr oc"
    "validate ext (TUnion (TList TStr) TStr) tk = Inr tk"
    using s by (simp_all only: validate_str_or_strs)
  show ?thesis
    using u
    by (simp add: Market_def model_init_def Market_fields_def collect_def lookup_field_def
        v absent del: validate.simps(7))
qed

text \<open>
  C6, as amended. Constructing a \<open>Market\<close> fails validation whenever one of \<open>id\<close>,
  \<open>question\<close>, \<open>conditionId\<close>, \<open>slug\<close>, \<open>outcomes\<close>, \<open>clobTokenIds\<close> is absent (for the
  two aliased fields: under the alias and under the attribute name); absence is not the
  only cause, a value that is not a string fails for \<open>id\<close>, \<open>question\<close>, \<open>conditionId\<close>
  and \<open>slug\<close> as well. When exactly the six are supplied, strings for the first four
  and a string or a list of strings for \<open>outcomes\<close> and \<open>clobTokenIds\<close>, construction
  succeeds: every field annotated \<open>Optional\<close> is \<open>None\<close> (liquidity, volume and the
  prices among them, never zero) and the flags \<open>active\<close>, \<open>closed\<close>, \<open>archived\<close>,
  \<open>restricted\<close> take their defaults \<open>True\<close>, \<open>False\<close>, \<open>False\<close>, \<open>False\<close>.
\<close>

theorem Market_mandatory_fields:
  "(map_of d ''id'' = None \<or> map_of d ''question'' = None \<or>
      (map_of d ''conditionId'' = None \<and> map_of d ''condition_id'' = None) \<or>
      map_of d ''slug'' = None \<or> map_of d ''outcomes'' = None \<or>
      (map_of d ''clobTokenIds'' = None \<and> map_of d ''clob_token_ids'' = None)
    \<longrightarrow> (\<exists>es. Market ext (PDict d) = Inl (PydanticValidationError es))) \<and>
   ((map_of d ''id'' = Some v \<or> map_of d ''question'' = Some v \<or>
      map_of d ''conditionId'' = Some v \<or> map_of d ''slug'' = Some v) \<and> \<not> is_PStr v
    \<longrightarrow> (\<exists>es. Market ext (PDict d) = Inl (PydanticValidationError es))) \<and>
   (dom (map_of d) = {''id'', ''question'', ''conditionId'', ''slug'', ''outcomes'', ''clobTokenIds''} \<and>
    map_of d ''id'' = Some (PStr i) \<and> map_of d ''question'' = Some (PStr q) \<and>
    map_of d ''conditionId'' = Some (PStr c) \<and> map_of d ''slug'' = Some (PStr sl) \<and>
    map_of d ''outcomes'' = Some oc \<and> map_of d ''clobTokenIds'' = Some tk \<and>
    str_or_strs oc \<and> str_or_strs tk
    \<longrightarrow> Market ext (PDict d) = Inr (PObj ''Market''
     [(''id'', PStr i), (''question'', PStr q), (''condition_id'', PStr c),
       (''slug'', PStr sl), (''twitter_card_image'', PNone), (''resolution_source'', PNone),
       (''end_date_iso'', PNone), (''category'', PNone), (''amm_type'', PNone),
       (''liquidity'', PNone), (''volume'', PNone), (''outcomes'', oc),
       (''clob_token_ids'', tk), (''group_item_title'', PNone),
       (''group_item_threshold'', PNone), (''question_id'', PNone),
       (''rewards_min_size'', PNone), (''rewards_max_spread'', PNone), (''spread'', PNone),
       (''last_trade_price'', PNone), (''best_bid'', PNone), (''best_ask'', PNone),
       (''active'', PBool True), (''closed'', PBool False), (''archived'', PBool False),
       (''restricted'', PBool False), (''event_id'', PNone)]))"
  using Market_absent_fails [of d ext] Market_invalid_str_fails [of d v ext]
    Market_only_mandatory [of d i q c sl oc tk ext]
  by blast

theorem Market_mandatory_fields_witness:
  "(\<exists>es. Market no_scalars (PDict [(''id'', PStr ''1''), (''question'', PStr ''Q'')])
      = Inl (PydanticValidationError es)) \<and>
   (\<exists>es. Market no_scalars (PDict [(''id'', PInt 1), (''question'', PStr ''Q''),
       (''conditionId'', PStr ''0x1''), (''slug'', PStr ''slug''),
       (''outcomes'', PList [PStr ''A'', PStr ''B'']), (''clobTokenIds'', PList [PStr ''T1'', PStr ''T2''])])
      = Inl (PydanticValidationError es)) \<and>
   Market no_scalars (PDict [(''id'', PStr ''1''), (''question'', PStr ''Q''),
       (''conditionId'', PStr ''0x1''), (''slug'', PStr ''slug''),
       (''outcomes'', PList [PStr ''A'', PStr ''B'']), (''clobTokenIds'', PList [PStr ''T1'', PStr ''T2''])])
    = Inr (PObj ''Market''
     [(''id'', PStr ''1''), (''question'', PStr ''Q''), (''condition_id'', PStr ''0x1''),
       (''slug'', PStr ''slug''), (''twitter_card_image'', PNone), (''resolution_source'', PNone),
       (''end_date_iso'', PNone), (''category'', PNone), (''amm_type'', PNone),
       (''liquidity'', PNone), (''volume'', PNone), (''outcomes'', PList [PStr ''A'', PStr ''B'']),
       (''clob_token_ids'', PList [PStr ''T1'', PStr ''T2'']), (''group_item_title'', PNone),
       (''group_item_threshold'', PNone), (''question_id'', PNone),
       (''rewards_min_size'', PNone), (''rewards_max_spread'', PNone), (''spread'', PNone),
       (''last_trade_price'', PNone), (''best_bid'', PNone), (''best_ask'', PNone),
       (''active'', PBool True), (''closed'', PBool False), (''archived'', PBool False),
       (''restricted'', PBool False), (''event_id'', PNone)])"
proof -
  let ?two = "[(''id'', PStr ''1''), (''question'', PStr ''Q'')]"
  let ?six = "[(''id'', PStr ''1''), (''question'', PStr ''Q''),
       (''conditionId'', PStr ''0x1''), (''slug'', PStr ''slug''),
       (''outcomes'', PList [PStr ''A'', PStr ''B'']), (''clobTokenIds'', PList [PStr ''T1'', PStr ''T2''])]"
  have a: "\<exists>es. Market no_scalars (PDict ?two) = Inl (PydanticValidationError es)"
    by (rule Market_mandatory_fields [of ?two no_scalars, THEN conjunct1, THEN mp]) simp
  have c: "\<exists>es. Market no_scalars (PDict [(''id'', PInt 1), (''question'', PStr ''Q''),
       (''conditionId'', PStr ''0x1''), (''slug'', PStr ''slug''),
       (''outcomes'', PList [PStr ''A'', PStr ''B'']), (''clobTokenIds'', PList [PStr ''T1'', PStr ''T2''])])
      = Inl (PydanticValidationError es)"
    by (rule Market_mandatory_fields [of _ no_scalars "PInt 1", THEN conjunct2, THEN conjunct1,
        THEN mp]) simp
  have dm: "dom (map_of ?six) =
      {''id'', ''question'', ''conditionId'', ''slug'', ''outcomes'', ''clobTokenIds''}"
    by (simp only: dom_map_of_conv_image_fst set_simps image_insert image_empty fst_conv)
  have b: "Market no_scalars (PDict ?six) = Inr (PObj ''Market''
     [(''id'', PStr ''1''), (''question'', PStr ''Q''), (''condition_id'', PStr ''0x1''),
       (''slug'', PStr ''slug''), (''twitter_card_image'', PNone), (''resolution_source'', PNone),
       (''end_date_iso'', PNone), (''category'', PNone), (''amm_type'', PNone),
       (''liquidity'', PNone), (''volume'', PNone), (''outcomes'', PList [PStr ''A'', PStr ''B'']),
       (''clob_token_ids'', PList [PStr ''T1'', PStr ''T2'']), (''group_item_title'', PNone),
       (''group_item_threshold'', PNone), (''question_id'', PNone),
       (''rewards_min_size'', PNone), (''rewards_max_spread'', PNone), (''spread'', PNone),
       (''last_trade_price'', PNone), (''best_bid'', PNone), (''best_ask'', PNone),
       (''active'', PBool True), (''closed'', PBool False), (''archived'', PBool False),
       (''restricted'', PBool False), (''event_id'', PNone)])"
    by (rule Market_mandatory_fields [of ?six no_scalars _ "''1''" "''Q''" "''0x1''" "''slug''"
        "PList [PStr ''A'', PStr ''B'']" "PList [PStr ''T1'', PStr ''T2'']",
        THEN conjunct2, THEN conjunct2, THEN mp]) (simp add: dm)
  from a b c show ?thesis by blast
qed

text \<open>
  The claim as stated, failure exactly when a mandatory field is absent, fails: with all
  six supplied and \<open>id\<close> set to \<open>None\<close>, construction fails.
\<close>

theorem Market_rejects_null_id:
  "map_of [(''id'', PNone), (''question'', PStr ''Q''), (''conditionId'', PStr ''0x1''),
       (''slug'', PStr ''slug''), (''outcomes'', PStr ''A''), (''clobTokenIds'', PStr ''T1'')] ''id''
     = Some PNone \<and>
   isl (Market no_scalars (PDict [(''id'', PNone), (''question'', PStr ''Q''),
       (''conditionId'', PStr ''0x1''), (''slug'', PStr ''slug''), (''outcomes'', PStr ''A''),
       (''clobTokenIds'', PStr ''T1'')]))"
proof -
  let ?d = "[(''id'', PNone), (''question'', PStr ''Q''), (''conditionId'', PStr ''0x1''),
       (''slug'', PStr ''slug''), (''outcomes'', PStr ''A''), (''clobTokenIds'', PStr ''T1'')]"
  have "\<exists>es. Market no_scalars (PDict ?d) = Inl (PydanticValidationError es)"
    by (rule Market_invalid_str_fails [of ?d PNone]) simp_all
  then show ?thesis by auto
qed

lemma collect_Inr: "collect rs = Inr xs \<longleftrightarrow> rs = map Inr xs"
proof (induction rs arbitrary: xs)
  case Nil
  then show ?case by (auto simp: collect_def)
next
  case (Cons r rs)
  have c: "collect (r # rs) = combine r (collect rs)" by (simp add: collect_def)
  show ?case
  proof (cases r)
    case (Inl e)
    then show ?thesis unfolding c by (cases "collect rs") auto
  next
    case (Inr x)
    show ?thesis
    proof (cases "collect rs")
      case (Inl e)
      with Cons.IH have "\<And>ys. rs \<noteq> map Inr ys" by auto
      with Inl Inr show ?thesis unfolding c by (cases xs) auto
    next
      case r2: (Inr ys)
      with Cons.IH [of ys] have "rs = map Inr ys" by simp
      with r2 Inr show ?thesis unfolding c by (cases xs) auto
    qed
  qed
qed

lemma map_fields_replace:
  assumes "map (\<lambda>f. validate_field ext f d) fs = map Inr attrs"
    and "\<And>f a. f \<in> set fs \<Longrightarrow> validate_field ext f d = Inr a \<Longrightarrow> validate_field ext f d' = Inr (g a)"
  shows "map (\<lambda>f. validate_field ext f d') fs = map Inr (map g attrs)"
  using assms
proof (induction fs arbitrary: attrs)
  case Nil
  then show ?case by simp
next
  case (Cons f fs)
  then obtain a as where a: "attrs = a # as" by (cases attrs) auto
  with Cons.prems(1) have h: "validate_field ext f d = Inr a"
    and t: "map (\<lambda>f. validate_field ext f d) fs = map Inr as" by simp_all
  have "map (\<lambda>f. validate_field ext f d') fs = map Inr (map g as)"
    using t Cons.prems(2) by (intro Cons.IH) auto
  moreover have "validate_field ext f d' = Inr (g a)"
    using h Cons.prems(2) by simp
  ultimately show ?case using a by simp
qed

lemma Market_fields_cases:
  "f \<in> set Market_fields \<Longrightarrow>
     f = Field ''outcomes'' None (TUnion (TList TStr) TStr) Required \<or>
     f = Field ''clob_token_ids'' (Some ''clobTokenIds'') (TUnion (TList TStr) TStr) Required \<or>
     (''outcomes'' \<notin> set (keys_of f) \<and> ''clobTokenIds'' \<notin> set (keys_of f) \<and>
      fname f \<noteq> ''outcomes'' \<and> fname f \<noteq> ''clob_token_ids'')"
  unfolding Market_fields_def set_simps insert_iff empty_iff
  by (elim disjE) (simp_all add: keys_of_def)

lemma map_of_replaced:
  "n \<in> fst ` set attrs \<Longrightarrow> (\<And>v. g (n, v) = (n, w)) \<Longrightarrow> (\<And>a. fst (g a) = fst a) \<Longrightarrow>
   map_of (map g attrs) n = Some w"
proof (induction attrs)
  case Nil
  then show ?case by simp
next
  case (Cons a attrs)
  obtain k v where a: "a = (k, v)" by (cases a)
  show ?case
  proof (cases "k = n")
    case True
    with a Cons.prems(2) show ?thesis by simp
  next
    case False
    with a Cons.prems(1) have "n \<in> fst ` set attrs" by auto
    from Cons.IH [OF this Cons.prems(2,3)] have ih: "map_of (map g attrs) n = Some w" .
    obtain k' v' where g: "g a = (k', v')" by (cases "g a")
    with Cons.prems(3) [of a] a have "k' = k" by simp
    with g False ih show ?thesis by simp
  qed
qed

text \<open>
  C8. In a mapping from which a \<open>Market\<close> is constructed, \<open>outcomes\<close> and
  \<open>clobTokenIds\<close> can each be replaced by a single string or by a list of strings, in
  any combination. The construction still succeeds, and it yields the \<open>Market\<close> of the
  original mapping with the attributes \<open>outcomes\<close> and \<open>clob_token_ids\<close> set to the
  supplied values as they are: the attributes are those the class declares, in the order
  of declaration, and every other attribute keeps its value.
\<close>

theorem Market_union_fields_accept_both_shapes:
  assumes "Market ext (PDict d) = Inr m" and "str_or_strs oc" and "str_or_strs tk"
  shows "\<exists>attrs attrs'.
     m = PObj ''Market'' attrs \<and>
     attrs' = map (\<lambda>(n, v). if n = ''outcomes'' then (n, oc)
                             else if n = ''clob_token_ids'' then (n, tk) else (n, v)) attrs \<and>
     Market ext (PDict (AList.update ''outcomes'' oc (AList.update ''clobTokenIds'' tk d)))
       = Inr (PObj ''Market'' attrs') \<and>
     map fst attrs' = map fname Market_fields \<and>
     map_of attrs' ''outcomes'' = Some oc \<and>
     map_of attrs' ''clob_token_ids'' = Some tk"
proof -
  let ?d' = "AList.update ''outcomes'' oc (AList.update ''clobTokenIds'' tk d)"
  let ?g = "\<lambda>(n, v). if n = ''outcomes'' then (n, oc)
                      else if n = ''clob_token_ids'' then (n, tk) else (n, v)"
  from assms(1) obtain attrs where
    c: "collect (map (\<lambda>f. validate_field ext f d) Market_fields) = Inr attrs"
    and m: "m = PObj ''Market'' attrs"
    by (cases "collect (map (\<lambda>f. validate_field ext f d) Market_fields)")
       (auto simp: Market_def model_init_def)
  from c have names: "map fst attrs = map fname Market_fields"
    by (rule collect_fields_names)
  from c have base: "map (\<lambda>f. validate_field ext f d) Market_fields = map Inr attrs"
    by (simp only: collect_Inr)
  have step: "validate_field ext f ?d' = Inr (?g a)"
    if f: "f \<in> set Market_fields" and a: "validate_field ext f d = Inr a" for f a
  proof -
    obtain n v where nv: "a = (n, v)" by (cases a)
    with a have n: "n = fname f" by (auto dest: validate_field_name)
    consider
      (outcomes) "f = Field ''outcomes'' None (TUnion (TList TStr) TStr) Required"
    | (clob) "f = Field ''clob_token_ids'' (Some ''clobTokenIds'') (TUnion (TList TStr) TStr) Required"
    | (other) "''outcomes'' \<notin> set (keys_of f)" "''clobTokenIds'' \<notin> set (keys_of f)"
        "fname f \<noteq> ''outcomes''" "fname f \<noteq> ''clob_token_ids''"
      using Market_fields_cases [OF f] by blast
    then show ?thesis
    proof cases
      case outcomes
      then show ?thesis
        using validate_str_or_strs [OF assms(2), of ext] nv n
        by (simp add: lookup_field_def update_conv' del: validate.simps)
    next
      case clob
      then show ?thesis
        using validate_str_or_strs [OF assms(3), of ext] nv n
        by (simp add: lookup_field_def update_conv' del: validate.simps)
    next
      case other
      then have "\<forall>k \<in> set (keys_of f). map_of ?d' k = map_of d k"
        by (auto simp: update_conv')
      then have "validate_field ext f ?d' = validate_field ext f d"
        by (rule validate_field_agree)
      with a nv n other(3,4) show ?thesis by simp
    qed
  qed
  have "map (\<lambda>f. validate_field ext f ?d') Market_fields = map Inr (map ?g attrs)"
    using base step by (rule map_fields_replace)
  then have c': "collect (map (\<lambda>f. validate_field ext f ?d') Market_fields) = Inr (map ?g attrs)"
    by (simp only: collect_Inr)
  have res: "Market ext (PDict ?d') = Inr (PObj ''Market'' (map ?g attrs))"
    by (simp add: Market_def model_init_def c' del: validate_field.simps)
  have fst_g: "fst (?g a) = fst a" for a by (cases a) simp
  have names': "map fst (map ?g attrs) = map fname Market_fields"
    using names fst_g by (simp add: comp_def)
  have "''outcomes'' \<in> set (map fname Market_fields)"
    "''clob_token_ids'' \<in> set (map fname Market_fields)"
    by (simp_all add: Market_fields_def)
  then have mem: "''outcomes'' \<in> fst ` set attrs" "''clob_token_ids'' \<in> fst ` set attrs"
    unfolding names [symmetric] by simp_all
  have o: "map_of (map ?g attrs) ''outcomes'' = Some oc"
    by (rule map_of_replaced [OF mem(1)]) (simp_all add: fst_g)
  have t: "map_of (map ?g attrs) ''clob_token_ids'' = Some tk"
    by (rule map_of_replaced [OF mem(2)]) (simp_all add: fst_g)
  from m res names' o t show ?thesis by blast
qed

theorem Market_union_fields_accept_both_shapes_witness:
  "Market no_scalars (PDict (AList.update ''outcomes'' (PStr ''A'')
       (AList.update ''clobTokenIds'' (PList [PStr ''T1'', PStr ''T2''])
         [(''id'', PStr ''1''), (''question'', PStr ''Q''), (''conditionId'', PStr ''0x1''),
          (''slug'', PStr ''slug''), (''outcomes'', PStr ''X''), (''clobTokenIds'', PStr ''Y'')])))
     = Inr (PObj ''Market''
         [(''id'', PStr ''1''), (''question'', PStr ''Q''), (''condition_id'', PStr ''0x1''),
          (''slug'', PStr ''slug''), (''twitter_card_image'', PNone),
          (''resolution_source'', PNone), (''end_date_iso'', PNone), (''category'', PNone),
          (''amm_type'', PNone), (''liquidity'', PNone), (''volume'', PNone),
          (''outcomes'', PStr ''A''), (''clob_token_ids'', PList [PStr ''T1'', PStr ''T2'']),
          (''group_item_title'', PNone), (''group_item_threshold'', PNone),
          (''question_id'', PNone), (''rewards_min_size'', PNone),
          (''rewards_max_spread'', PNone), (''spread'', PNone), (''last_trade_price'', PNone),
          (''best_bid'', PNone), (''best_ask'', PNone), (''active'', PBool True),
          (''closed'', PBool False), (''archived'', PBool False), (''restricted'', PBool False),
          (''event_id'', PNone)]) \<and>
   Market no_scalars (PDict (AList.update ''outcomes'' (PList [PStr ''A'', PStr ''B''])
       (AList.update ''clobTokenIds'' (PStr ''T1'')
         [(''id'', PStr ''1''), (''question'', PStr ''Q''), (''conditionId'', PStr ''0x1''),
          (''slug'', PStr ''slug''), (''outcomes'', PStr ''X''), (''clobTokenIds'', PStr ''Y'')])))
     = Inr (PObj ''Market''
         [(''id'', PStr ''1''), (''question'', PStr ''Q''), (''condition_id'', PStr ''0x1''),
          (''slug'', PStr ''slug''), (''twitter_card_image'', PNone),
          (''resolution_source'', PNone), (''end_date_iso'', PNone), (''category'', PNone),
          (''amm_type'', PNone), (''liquidity'', PNone), (''volume'', PNone),
          (''outcomes'', PList [PStr ''A'', PStr ''B'']), (''clob_token_ids'', PStr ''T1''),
          (''group_item_title'', PNone), (''group_item_threshold'', PNone),
          (''question_id'', PNone), (''rewards_min_size'', PNone),
          (''rewards_max_spread'', PNone), (''spread'', PNone), (''last_trade_price'', PNone),
          (''best_bid'', PNone), (''best_ask'', PNone), (''active'', PBool True),
          (''closed'', PBool False), (''archived'', PBool False), (''restricted'', PBool False),
          (''event_id'', PNone)])"
proof -
  let ?d = "[(''id'', PStr ''1''), (''question'', PStr ''Q''), (''conditionId'', PStr ''0x1''),
          (''slug'', PStr ''slug''), (''outcomes'', PStr ''X''), (''clobTokenIds'', PStr ''Y'')]"
  have dm: "dom (map_of ?d) =
      {''id'', ''question'', ''conditionId'', ''slug'', ''outcomes'', ''clobTokenIds''}"
    by (simp only: dom_map_of_conv_image_fst set_simps image_insert image_empty fst_conv)
  have base: "Market no_scalars (PDict ?d) = Inr (PObj ''Market''
         [(''id'', PStr ''1''), (''question'', PStr ''Q''), (''condition_id'', PStr ''0x1''),
          (''slug'', PStr ''slug''), (''twitter_card_image'', PNone),
          (''resolution_source'', PNone), (''end_date_iso'', PNone), (''category'', PNone),
          (''amm_type'', PNone), (''liquidity'', PNone), (''volume'', PNone),
          (''outcomes'', PStr ''X''), (''clob_token_ids'', PStr ''Y''),
          (''group_item_title'', PNone), (''group_item_threshold'', PNone),
          (''question_id'', PNone), (''rewards_min_size'', PNone),
          (''rewards_max_spread'', PNone), (''spread'', PNone), (''last_trade_price'', PNone),
          (''best_bid'', PNone), (''best_ask'', PNone), (''active'', PBool True),
          (''closed'', PBool False), (''archived'', PBool False), (''restricted'', PBool False),
          (''event_id'', PNone)])"
    by (rule Market_only_mandatory [OF dm]) simp+
  have 1: "Market no_scalars (PDict (AList.update ''outcomes'' (PStr ''A'')
       (AList.update ''clobTokenIds'' (PList [PStr ''T1'', PStr ''T2''])
         [(''id'', PStr ''1''), (''question'', PStr ''Q''), (''conditionId'', PStr ''0x1''),
          (''slug'', PStr ''slug''), (''outcomes'', PStr ''X''), (''clobTokenIds'', PStr ''Y'')])))
     = Inr (PObj ''Market''
         [(''id'', PStr ''1''), (''question'', PStr ''Q''), (''condition_id'', PStr ''0x1''),
          (''slug'', PStr ''slug''), (''twitter_card_image'', PNone),
          (''resolution_source'', PNone), (''end_date_iso'', PNone), (''category'', PNone),
          (''amm_type'', PNone), (''liquidity'', PNone), (''volume'', PNone),
          (''outcomes'', PStr ''A''), (''clob_token_ids'', PList [PStr ''T1'', PStr ''T2'']),
          (''group_item_title'', PNone), (''group_item_threshold'', PNone),
          (''question_id'', PNone), (''rewards_min_size'', PNone),
          (''rewards_max_spread'', PNone), (''spread'', PNone), (''last_trade_price'', PNone),
          (''best_bid'', PNone), (''best_ask'', PNone), (''active'', PBool True),
          (''closed'', PBool False), (''archived'', PBool False), (''restricted'', PBool False),
          (''event_id'', PNone)])"
    using Market_union_fields_accept_both_shapes [OF base, of "PStr ''A''" "PList [PStr ''T1'', PStr ''T2'']"]
    by simp
  have 2: "Market no_scalars (PDict (AList.update ''outcomes'' (PList [PStr ''A'', PStr ''B''])
       (AList.update ''clobTokenIds'' (PStr ''T1'')
         [(''id'', PStr ''1''), (''question'', PStr ''Q''), (''conditionId'', PStr ''0x1''),
          (''slug'', PStr ''slug''), (''outcomes'', PStr ''X''), (''clobTokenIds'', PStr ''Y'')])))
     = Inr (PObj ''Market''
         [(''id'', PStr ''1''), (''question'', PStr ''Q''), (''condition_id'', PStr ''0x1''),
          (''slug'', PStr ''slug''), (''twitter_card_image'', PNone),
          (''resolution_source'', PNone), (''end_date_iso'', PNone), (''category'', PNone),
          (''amm_type'', PNone), (''liquidity'', PNone), (''volume'', PNone),
          (''outcomes'', PList [PStr ''A'', PStr ''B'']), (''clob_token_ids'', PStr ''T1''),
          (''group_item_title'', PNone), (''group_item_threshold'', PNone),
          (''question_id'', PNone), (''rewards_min_size'', PNone),
          (''rewards_max_spread'', PNone), (''spread'', PNone), (''last_trade_price'', PNone),
          (''best_bid'', PNone), (''best_ask'', PNone), (''active'', PBool True),
          (''closed'', PBool False), (''archived'', PBool False), (''restricted'', PBool False),
          (''event_id'', PNone)])"
    using Market_union_fields_accept_both_shapes [OF base, of "PList [PStr ''A'', PStr ''B'']" "PStr ''T1''"]
    by simp
  from 1 2 show ?thesis by (rule conjI)
qed

theorem unknown_keys_ignored_witness:
  "model_init no_scalars ''Market'' Market_fields
     (PDict [(''id'', PStr ''1''), (''question'', PStr ''Q''), (''conditionId'', PStr ''0x1''),
        (''slug'', PStr ''slug''), (''outcomes'', PStr ''X''), (''clobTokenIds'', PStr ''Y''),
        (''unknownKey'', PInt 7)])
   = model_init no_scalars ''Market'' Market_fields
     (PDict [(''id'', PStr ''1''), (''question'', PStr ''Q''), (''conditionId'', PStr ''0x1''),
        (''slug'', PStr ''slug''), (''outcomes'', PStr ''X''), (''clobTokenIds'', PStr ''Y'')]) \<and>
   \<not> isl (model_init no_scalars ''Market'' Market_fields
     (PDict [(''id'', PStr ''1''), (''question'', PStr ''Q''), (''conditionId'', PStr ''0x1''),
        (''slug'', PStr ''slug''), (''outcomes'', PStr ''X''), (''clobTokenIds'', PStr ''Y''),
        (''unknownKey'', PInt 7)]))"
proof -
  let ?d = "[(''id'', PStr ''1''), (''question'', PStr ''Q''), (''conditionId'', PStr ''0x1''),
          (''slug'', PStr ''slug''), (''outcomes'', PStr ''X''), (''clobTokenIds'', PStr ''Y'')]"
  let ?d' = "[(''id'', PStr ''1''), (''question'', PStr ''Q''), (''conditionId'', PStr ''0x1''),
        (''slug'', PStr ''slug''), (''outcomes'', PStr ''X''), (''clobTokenIds'', PStr ''Y''),
        (''unknownKey'', PInt 7)]"
  have m: "(''Market'', Market_fields) \<in> set entity_models"
    by (simp add: entity_models_def)
  have k: "\<forall>k \<in> set (known_keys Market_fields). map_of ?d' k = map_of ?d k"
    by (simp add: known_keys_def keys_of_def Market_fields_def)
  have dm: "dom (map_of ?d) =
      {''id'', ''question'', ''conditionId'', ''slug'', ''outcomes'', ''clobTokenIds''}"
    by (simp only: dom_map_of_conv_image_fst set_simps image_insert image_empty fst_conv)
  have "\<exists>m. Market no_scalars (PDict ?d) = Inr m"
    by (rule exI, rule Market_only_mandatory [OF dm]) simp+
  then have ok: "\<not> isl (model_init no_scalars ''Market'' Market_fields (PDict ?d))"
    by (auto simp: Market_def)
  from unknown_keys_ignored [OF m k, of no_scalars] ok show ?thesis by simp
qed

lemma isl_model_init:
  "isl (model_init ext name fs (PDict d)) = list_ex (\<lambda>f. isl (validate_field ext f d)) fs"
proof -
  have "isl (model_init ext name fs (PDict d)) = isl (collect (map (\<lambda>f. validate_field ext f d) fs))"
    by (cases "collect (map (\<lambda>f. validate_field ext f d) fs)") (simp_all add: model_init_def)
  then show ?thesis by (simp add: isl_collect list_ex_iff)
qed

lemma normalize_example:
  "parse_flexible_datetime (PStr ''2023-04-01 12:00:00+00'') = PStr ''2023-04-01T12:00:00+00:00''"
  by (simp add: parse_flexible_datetime_def endswith_def)

text \<open>
  C2. The normalizer is attached to \<open>closed_time\<close> only. Supplied as \<open>umaEndDate\<close>, the
  string \<open>2023-04-01 12:00:00+00\<close> reaches the datetime validator as it is, and the
  construction fails exactly when that validator refuses the unrepaired string; supplied
  as \<open>closedTime\<close>, the same string reaches it repaired, as \<open>2023-04-01T12:00:00+00:00\<close>.
\<close>

theorem PublicSearchMarket_uma_end_date_unrepaired:
  "isl (PublicSearchMarket ext (PDict [(''id'', PStr ''test-id''),
       (''question'', PStr ''Test question?''), (''conditionId'', PStr ''0x123''),
       (''slug'', PStr ''test-slug''), (''umaEndDate'', PStr ''2023-04-01 12:00:00+00'')]))
     = (ext SDatetime (PStr ''2023-04-01 12:00:00+00'') = None) \<and>
   isl (PublicSearchMarket ext (PDict [(''id'', PStr ''test-id''),
       (''question'', PStr ''Test question?''), (''conditionId'', PStr ''0x123''),
       (''slug'', PStr ''test-slug''), (''closedTime'', PStr ''2023-04-01 12:00:00+00'')]))
     = (ext SDatetime (PStr ''2023-04-01T12:00:00+00:00'') = None)"
  by (simp add: PublicSearchMarket_def isl_model_init PublicSearchMarket_fields_def
      lookup_field_def FlexibleDatetime_def normalize_example split: option.splits)

section \<open>Lookup by slug and URL resolution\<close>

lemma request_recording_json:
  "server endpoint kwargs = Responded (json_response 200 body) \<Longrightarrow>
   request (recording server) meth endpoint kwargs seen = (Inr body, seen @ [(endpoint, kwargs)])"
  by (simp add: request_cases recording_def json_status)

lemma request_recording_404:
  "server endpoint kwargs = Responded (text_response 404 body) \<Longrightarrow>
   request (recording server) meth endpoint kwargs seen =
     (Inl (NotFoundError (''Resource not found: '' @ endpoint) 404), seen @ [(endpoint, kwargs)])"
  by (simp add: request_cases recording_def text_status)

lemma market_body_ok: "\<exists>m. Market no_scalars (PDict market_body) = Inr m"
proof -
  have dm: "dom (map_of market_body) =
      {''id'', ''question'', ''conditionId'', ''slug'', ''outcomes'', ''clobTokenIds''}"
    unfolding market_body_def
    by (simp only: dom_map_of_conv_image_fst set_simps image_insert image_empty fst_conv)
  show ?thesis
    by (rule exI, rule Market_only_mandatory [OF dm]) (simp add: market_body_def)+
qed

lemma event_body_ok: "\<not> isl (Event no_scalars (PDict event_body))"
  by (simp add: Event_def isl_model_init Event_fields_def lookup_field_def event_body_def)

text \<open>
  C4. Market lookup by slug, after a request that succeeds: a body that is a JSON object
  gives the \<open>Market\<close> constructed from it; a one-element array gives the \<open>Market\<close>
  constructed from its element, hence the same entity for the same object; an empty array
  gives \<open>None\<close>. The async sub-client has the same text.
\<close>

theorem MarketsClient_get_by_slug_shapes:
  "(request tr ''GET'' (MARKETS_BY_SLUG slug) None s = (Inr (PDict d), s') \<longrightarrow>
      MarketsClient_get_by_slug ext tr slug s = (Market ext (PDict d), s')) \<and>
   (request tr ''GET'' (MARKETS_BY_SLUG slug) None s = (Inr (PList [x]), s') \<longrightarrow>
      MarketsClient_get_by_slug ext tr slug s = (Market ext x, s')) \<and>
   (request tr ''GET'' (MARKETS_BY_SLUG slug) None s = (Inr (PList []), s') \<longrightarrow>
      MarketsClient_get_by_slug ext tr slug s = (Inr PNone, s'))"
  by (simp add: MarketsClient_get_by_slug_def)

theorem MarketsClient_get_by_slug_shapes_witness:
  "MarketsClient_get_by_slug no_scalars (recording slug_server) ''one'' []
     = (Market no_scalars (PDict market_body), [(''/markets/slug/one'', None)]) \<and>
   MarketsClient_get_by_slug no_scalars (recording slug_server) ''listed'' []
     = (Market no_scalars (PDict market_body), [(''/markets/slug/listed'', None)]) \<and>
   MarketsClient_get_by_slug no_scalars (recording slug_server) ''none'' []
     = (Inr PNone, [(''/markets/slug/none'', None)]) \<and>
   (\<exists>m. Market no_scalars (PDict market_body) = Inr m)"
proof -
  have a: "request (recording slug_server) ''GET'' (MARKETS_BY_SLUG ''one'') None []
      = (Inr (PDict market_body), [(''/markets/slug/one'', None)])"
    by (simp add: request_recording_json slug_server_def MARKETS_BY_SLUG_def)
  have b: "request (recording slug_server) ''GET'' (MARKETS_BY_SLUG ''listed'') None []
      = (Inr (PList [PDict market_body]), [(''/markets/slug/listed'', None)])"
    by (simp add: request_recording_json slug_server_def MARKETS_BY_SLUG_def)
  have c: "request (recording slug_server) ''GET'' (MARKETS_BY_SLUG ''none'') None []
      = (Inr (PList []), [(''/markets/slug/none'', None)])"
    by (simp add: request_recording_json slug_server_def MARKETS_BY_SLUG_def)
  note t = MarketsClient_get_by_slug_shapes [of "recording slug_server" _ "[]" _ _ no_scalars]
  from t [of "''one''" market_body "[(''/markets/slug/one'', None)]"] a
  have 1: "MarketsClient_get_by_slug no_scalars (recording slug_server) ''one'' []
     = (Market no_scalars (PDict market_body), [(''/markets/slug/one'', None)])" by blast
  from t [of "''listed''" _ "[(''/markets/slug/listed'', None)]" "PDict market_body"] b
  have 2: "MarketsClient_get_by_slug no_scalars (recording slug_server) ''listed'' []
     = (Market no_scalars (PDict market_body), [(''/markets/slug/listed'', None)])" by blast
  from t [of "''none''" _ "[(''/markets/slug/none'', None)]"] c
  have 3: "MarketsClient_get_by_slug no_scalars (recording slug_server) ''none'' []
     = (Inr PNone, [(''/markets/slug/none'', None)])" by blast
  from 1 2 3 market_body_ok show ?thesis by blast
qed

lemma py_split_nonempty: "py_split sep s \<noteq> []"
  by (induction s) (auto split: list.splits)

lemma py_split_length1: "length (py_split sep s) \<ge> 2 \<Longrightarrow> s \<noteq> []"
  by (cases s) auto

lemma py_split_last_nonempty:
  "s \<noteq> [] \<Longrightarrow> last s \<noteq> sep \<Longrightarrow> last (py_split sep s) \<noteq> []"
proof (induction s)
  case Nil
  then show ?case by simp
next
  case (Cons c cs)
  show ?case
  proof (cases "cs = []")
    case True
    with Cons.prems show ?thesis by simp
  next
    case False
    with Cons have ih: "last (py_split sep cs) \<noteq> []" by simp
    obtain piece pieces where p: "py_split sep cs = piece # pieces"
      using py_split_nonempty [of sep cs] by (cases "py_split sep cs") auto
    show ?thesis
    proof (cases "c = sep")
      case True
      then show ?thesis using ih p by simp
    next
      case False
      then show ?thesis using ih p by (cases pieces) auto
    qed
  qed
qed

lemma slug_nonempty:
  assumes "length (path_parts path) \<ge> 2"
  shows "last (path_parts path) \<noteq> []"
proof -
  let ?st = "py_strip ''/'' path"
  from assms have ne: "?st \<noteq> []"
    unfolding path_parts_def by (rule py_split_length1)
  with py_strip_ends [of "CHR ''/''" path] have "last ?st \<noteq> CHR ''/''" by simp
  with ne show ?thesis unfolding path_parts_def by (rule py_split_last_nonempty)
qed

text \<open>
  C3. \<open>resolve_url\<close>, for a URL whose path \<open>urlparse\<close> finds: when the path, stripped
  of surrounding slashes and split at slashes, has fewer than two segments or a first
  segment other than \<open>market\<close> and \<open>event\<close>, the call raises \<open>ValidationError\<close> and the
  state of the transport is untouched: no request was made. Otherwise the last segment is
  the slug; the market lookup runs first and its result is returned; when it raises, the
  event lookup runs from the state the market lookup left, and its result is returned;
  when that raises too the result is \<open>None\<close>; in every case the call returns.
\<close>

theorem resolve_url_behaviour:
  assumes "urlparse_path url = Some path"
  shows
  "(length (path_parts path) < 2 \<or> hd (path_parts path) \<notin> {''market'', ''event''} \<longrightarrow>
      resolve_url ext urlparse_path tr url s =
        (Inl (ValidationError (''Invalid Polymarket URL: '' @ url)), s)) \<and>
   (2 \<le> length (path_parts path) \<and> hd (path_parts path) \<in> {''market'', ''event''} \<longrightarrow>
      (\<forall>found s1. MarketsClient_get_by_slug ext tr (last (path_parts path)) s = (Inr found, s1) \<longrightarrow>
         resolve_url ext urlparse_path tr url s = (Inr found, s1)) \<and>
      (\<forall>e1 s1 found s2. MarketsClient_get_by_slug ext tr (last (path_parts path)) s = (Inl e1, s1) \<and>
           EventsClient_get_by_slug ext tr (last (path_parts path)) s1 = (Inr found, s2) \<longrightarrow>
         resolve_url ext urlparse_path tr url s = (Inr found, s2)) \<and>
      (\<forall>e1 s1 e2 s2. MarketsClient_get_by_slug ext tr (last (path_parts path)) s = (Inl e1, s1) \<and>
           EventsClient_get_by_slug ext tr (last (path_parts path)) s1 = (Inl e2, s2) \<longrightarrow>
         resolve_url ext urlparse_path tr url s = (Inr PNone, s2)) \<and>
      (\<exists>found s'. resolve_url ext urlparse_path tr url s = (Inr found, s')))"
proof (intro conjI impI)
  assume "length (path_parts path) < 2 \<or> hd (path_parts path) \<notin> {''market'', ''event''}"
  then have "extract_slug_from_url urlparse_path url = None"
    using assms by (auto simp: extract_slug_from_url_def)
  then show "resolve_url ext urlparse_path tr url s =
      (Inl (ValidationError (''Invalid Polymarket URL: '' @ url)), s)"
    by (simp add: resolve_url_def)
next
  assume v: "2 \<le> length (path_parts path) \<and> hd (path_parts path) \<in> {''market'', ''event''}"
  let ?slug = "last (path_parts path)"
  have x: "extract_slug_from_url urlparse_path url = Some ?slug"
    using assms v by (auto simp: extract_slug_from_url_def)
  have ne: "?slug \<noteq> []" using v slug_nonempty by blast
  have r: "resolve_url ext urlparse_path tr url s =
      (case MarketsClient_get_by_slug ext tr ?slug s of
         (Inr found, s1) \<Rightarrow> (Inr found, s1)
       | (Inl e1, s1) \<Rightarrow>
           (case EventsClient_get_by_slug ext tr ?slug s1 of
              (Inr found, s2) \<Rightarrow> (Inr found, s2)
            | (Inl e2, s2) \<Rightarrow> (Inr PNone, s2)))"
    using x ne by (simp add: resolve_url_def)
  show "\<forall>found s1. MarketsClient_get_by_slug ext tr ?slug s = (Inr found, s1) \<longrightarrow>
         resolve_url ext urlparse_path tr url s = (Inr found, s1)"
    by (simp add: r)
  show "\<forall>e1 s1 found s2. MarketsClient_get_by_slug ext tr ?slug s = (Inl e1, s1) \<and>
           EventsClient_get_by_slug ext tr ?slug s1 = (Inr found, s2) \<longrightarrow>
         resolve_url ext urlparse_path tr url s = (Inr found, s2)"
    by (simp add: r)
  show "\<forall>e1 s1 e2 s2. MarketsClient_get_by_slug ext tr ?slug s = (Inl e1, s1) \<and>
           EventsClient_get_by_slug ext tr ?slug s1 = (Inl e2, s2) \<longrightarrow>
         resolve_url ext urlparse_path tr url s = (Inr PNone, s2)"
    by (simp add: r)
  show "\<exists>found s'. resolve_url ext urlparse_path tr url s = (Inr found, s')"
    unfolding r by (auto split: prod.splits sum.splits)
qed

lemma parts_event: "path_parts ''/event/foo-bar'' = [''event'', ''foo-bar'']"
  by (simp add: path_parts_def py_strip_def)

lemma parts_one: "path_parts ''/market/one'' = [''market'', ''one'']"
  by (simp add: path_parts_def py_strip_def)

lemma parts_missing: "path_parts ''/market/missing'' = [''market'', ''missing'']"
  by (simp add: path_parts_def py_strip_def)

lemma parts_profile: "path_parts ''/profile/foo-bar'' = [''profile'', ''foo-bar'']"
  by (simp add: path_parts_def py_strip_def)

lemma parts_short: "path_parts ''/market/'' = [''market'']"
  by (simp add: path_parts_def py_strip_def)

theorem resolve_url_behaviour_witness:
  "resolve_url no_scalars polymarket_path (recording slug_server)
       ''https://polymarket.com/event/foo-bar'' []
     = (Event no_scalars (PDict event_body),
        [(''/markets/slug/foo-bar'', None), (''/events/slug/foo-bar'', None)]) \<and>
   \<not> isl (Event no_scalars (PDict event_body)) \<and>
   resolve_url no_scalars polymarket_path (recording slug_server)
       ''https://polymarket.com/market/one'' []
     = (Market no_scalars (PDict market_body), [(''/markets/slug/one'', None)]) \<and>
   \<not> isl (Market no_scalars (PDict market_body)) \<and>
   resolve_url no_scalars polymarket_path (recording slug_server)
       ''https://polymarket.com/market/missing'' []
     = (Inr PNone, [(''/markets/slug/missing'', None), (''/events/slug/missing'', None)]) \<and>
   resolve_url no_scalars polymarket_path (recording slug_server)
       ''https://polymarket.com/profile/foo-bar'' []
     = (Inl (ValidationError ''Invalid Polymarket URL: https://polymarket.com/profile/foo-bar''), []) \<and>
   resolve_url no_scalars polymarket_path (recording slug_server)
       ''https://polymarket.com/market/'' []
     = (Inl (ValidationError ''Invalid Polymarket URL: https://polymarket.com/market/''), [])"
proof -
  let ?tr = "recording slug_server"
  have p1: "polymarket_path ''https://polymarket.com/event/foo-bar'' = Some ''/event/foo-bar''"
    and p2: "polymarket_path ''https://polymarket.com/market/missing'' = Some ''/market/missing''"
    and p5: "polymarket_path ''https://polymarket.com/market/one'' = Some ''/market/one''"
    and p3: "polymarket_path ''https://polymarket.com/profile/foo-bar'' = Some ''/profile/foo-bar''"
    and p4: "polymarket_path ''https://polymarket.com/market/'' = Some ''/market/''"
    by (simp_all add: polymarket_path_def)
  have m1: "MarketsClient_get_by_slug no_scalars ?tr ''foo-bar'' []
      = (Inl (NotFoundError ''Resource not found: /markets/slug/foo-bar'' 404),
         [(''/markets/slug/foo-bar'', None)])"
    by (simp add: MarketsClient_get_by_slug_def request_recording_404 [where body = "''not found''"]
        slug_server_def MARKETS_BY_SLUG_def)
  have e1: "EventsClient_get_by_slug no_scalars ?tr ''foo-bar'' [(''/markets/slug/foo-bar'', None)]
      = (Event no_scalars (PDict event_body),
         [(''/markets/slug/foo-bar'', None), (''/events/slug/foo-bar'', None)])"
    by (simp add: EventsClient_get_by_slug_def request_recording_json [where body = "PDict event_body"]
        slug_server_def EVENTS_BY_SLUG_def)
  have m2: "MarketsClient_get_by_slug no_scalars ?tr ''missing'' []
      = (Inl (NotFoundError ''Resource not found: /markets/slug/missing'' 404),
         [(''/markets/slug/missing'', None)])"
    by (simp add: MarketsClient_get_by_slug_def request_recording_404 [where body = "''not found''"]
        slug_server_def MARKETS_BY_SLUG_def)
  have e2: "EventsClient_get_by_slug no_scalars ?tr ''missing'' [(''/markets/slug/missing'', None)]
      = (Inl (NotFoundError ''Resource not found: /events/slug/missing'' 404),
         [(''/markets/slug/missing'', None), (''/events/slug/missing'', None)])"
    by (simp add: EventsClient_get_by_slug_def request_recording_404 [where body = "''not found''"]
        slug_server_def EVENTS_BY_SLUG_def)
  obtain ev where ev: "Event no_scalars (PDict event_body) = Inr ev"
    using event_body_ok by (cases "Event no_scalars (PDict event_body)") auto
  from resolve_url_behaviour [of polymarket_path _ _ no_scalars ?tr "[]", OF p1] m1 e1 ev
  have 1: "resolve_url no_scalars polymarket_path ?tr
       ''https://polymarket.com/event/foo-bar'' []
     = (Event no_scalars (PDict event_body),
        [(''/markets/slug/foo-bar'', None), (''/events/slug/foo-bar'', None)])"
    by (simp add: parts_event)
  from resolve_url_behaviour [of polymarket_path _ _ no_scalars ?tr "[]", OF p2] m2 e2
  have 2: "resolve_url no_scalars polymarket_path ?tr ''https://polymarket.com/market/missing'' []
     = (Inr PNone, [(''/markets/slug/missing'', None), (''/events/slug/missing'', None)])"
    by (simp add: parts_missing)
  obtain mk where mk: "Market no_scalars (PDict market_body) = Inr mk"
    using market_body_ok by blast
  have m5: "MarketsClient_get_by_slug no_scalars ?tr ''one'' []
      = (Market no_scalars (PDict market_body), [(''/markets/slug/one'', None)])"
    by (simp add: MarketsClient_get_by_slug_def
        request_recording_json [where body = "PDict market_body"] slug_server_def
        MARKETS_BY_SLUG_def)
  from resolve_url_behaviour [of polymarket_path _ _ no_scalars ?tr "[]", OF p5] m5 mk
  have 5: "resolve_url no_scalars polymarket_path ?tr ''https://polymarket.com/market/one'' []
     = (Market no_scalars (PDict market_body), [(''/markets/slug/one'', None)])"
    by (simp add: parts_one)
  from resolve_url_behaviour [of polymarket_path _ _ no_scalars ?tr "[]", OF p3]
  have 3: "resolve_url no_scalars polymarket_path ?tr ''https://polymarket.com/profile/foo-bar'' []
     = (Inl (ValidationError ''Invalid Polymarket URL: https://polymarket.com/profile/foo-bar''), [])"
    by (simp add: parts_profile)
  from resolve_url_behaviour [of polymarket_path _ _ no_scalars ?tr "[]", OF p4]
  have 4: "resolve_url no_scalars polymarket_path ?tr ''https://polymarket.com/market/'' []
     = (Inl (ValidationError ''Invalid Polymarket URL: https://polymarket.com/market/''), [])"
    by (simp add: parts_short)
  from 1 2 3 4 5 mk event_body_ok show ?thesis by simp
qed

section \<open>Aggregated public search\<close>

lemma fetch_pages_in_order:
  "fetch_pages ext tr query ap pages evs s =
     (case fetch_in_order ext tr query (map (\<lambda>p. AList.update ''page'' (PInt p) ap) pages) s of
        (Inl e, s') \<Rightarrow> (Inl e, s')
      | (Inr rs, s') \<Rightarrow> (Inr (evs @ concat (map events rs)), s'))"
proof (induction pages arbitrary: ap evs s)
  case Nil
  then show ?case by simp
next
  case (Cons p pages)
  have u: "(\<lambda>q. AList.update ''page'' (PInt q) (AList.update ''page'' (PInt p) ap))
      = (\<lambda>q. AList.update ''page'' (PInt q) ap)"
    by (simp add: update_last)
  show ?case
    by (simp add: Cons.IH u split: prod.splits sum.splits)
qed

lemma first_api_params_fold:
  "distinct (map fst params) \<Longrightarrow>
   map_of (foldl (\<lambda>api_params (k, v). AList.update k v api_params) base params) k =
     (case map_of params k of Some v \<Rightarrow> Some v | None \<Rightarrow> map_of base k)"
proof (induction params arbitrary: base rule: rev_induct)
  case Nil
  then show ?case by simp
next
  case (snoc kv params)
  obtain k' v' where kv: "kv = (k', v')" by (cases kv)
  from snoc.prems kv have d: "distinct (map fst params)" and n: "map_of params k' = None"
    by (auto simp: map_of_eq_None_iff)
  show ?case
    using n by (simp add: snoc.IH [OF d] kv update_conv' map_add_def split: option.splits)
qed

lemma first_api_params_last_wins:
  assumes "distinct (map fst params)"
  shows "map_of (first_api_params params) k =
     (case map_of params k of
        Some v \<Rightarrow> Some v
      | None \<Rightarrow> map_of [(''page'', PInt 1), (''limit_per_type'', PInt 20),
                         (''type'', PStr ''events''), (''sort'', PStr ''volume_24hr'')] k)"
  unfolding first_api_params_def first_api_params_fold [OF assms]
  by (auto simp: dict_get_def split: option.splits)

lemma foldl_update_keeps:
  "map_of base k \<noteq> None \<Longrightarrow>
   map_of (foldl (\<lambda>api_params (k, v). AList.update k v api_params) base params) k \<noteq> None"
proof (induction params arbitrary: base)
  case Nil
  then show ?case by simp
next
  case (Cons kv params)
  obtain k' v' where kv: "kv = (k', v')" by (cases kv)
  have "map_of (AList.update k' v' base) k \<noteq> None"
    using Cons.prems by (simp add: update_conv')
  then show ?case using Cons.IH kv by simp
qed

lemma limit_per_type_present:
  "\<exists>l. map_of (first_api_params params) ''limit_per_type'' = Some l"
proof -
  have "map_of (first_api_params params) ''limit_per_type'' \<noteq> None"
    unfolding first_api_params_def by (rule foldl_update_keeps) simp
  then show ?thesis by blast
qed

lemma page_count_no_total:
  "map_of pg ''totalResults'' = None \<Longrightarrow>
   page_count_of pg ap = Inl (KeyError ''totalResults'')"
  by (simp add: page_count_of_def dict_item_def)

lemma page_count_not_numbers:
  "map_of pg ''totalResults'' = Some t \<Longrightarrow> map_of ap ''limit_per_type'' = Some l \<Longrightarrow>
   \<not> is_number t \<or> \<not> is_number l \<Longrightarrow> page_count_of pg ap = Inl TypeError"
  by (auto simp: page_count_of_def dict_item_def py_floordiv_def is_number_def
      split: option.splits)

lemma page_count_integers:
  "map_of pg ''totalResults'' = Some t \<Longrightarrow> map_of ap ''limit_per_type'' = Some l \<Longrightarrow>
   as_int t = Some x \<Longrightarrow> as_int l = Some y \<Longrightarrow>
   page_count_of pg ap = (if y = 0 then Inl ZeroDivisionError else Inr (PInt (x div y + 1)))"
  by (simp add: page_count_of_def dict_item_def py_floordiv_def py_add1_def)

lemma page_count_floats:
  assumes "map_of pg ''totalResults'' = Some t" and "map_of ap ''limit_per_type'' = Some l"
    and "is_number t" and "is_number l" and "is_float t \<or> is_float l"
  shows "page_count_of pg ap =
     (case as_float t of
        Inl e \<Rightarrow> Inl e
      | Inr x \<Rightarrow>
          (case as_float l of
             Inl e \<Rightarrow> Inl e
           | Inr y \<Rightarrow>
               if y = 0 then Inl ZeroDivisionError
               else Inr (PFloat (real_of_int \<lfloor>x / y\<rfloor> + 1))))"
proof -
  have "as_int t = None \<or> as_int l = None"
    using assms(5) by (cases t; cases l) auto
  then show ?thesis
    using assms(1-4)
    by (auto simp: page_count_of_def dict_item_def py_floordiv_def py_add1_def
        split: option.splits sum.splits)
qed

lemma page_count_float_cases:
  assumes "map_of pg ''totalResults'' = Some t" and "map_of ap ''limit_per_type'' = Some l"
    and "is_number t" and "is_number l" and "is_float t \<or> is_float l"
  shows "(too_large t \<or> too_large l \<longrightarrow> page_count_of pg ap = Inl OverflowError) \<and>
         (\<not> too_large t \<and> \<not> too_large l \<and> is_zero l \<longrightarrow>
            page_count_of pg ap = Inl ZeroDivisionError) \<and>
         (\<not> too_large t \<and> \<not> too_large l \<and> \<not> is_zero l \<longrightarrow>
            (\<exists>x. page_count_of pg ap = Inr (PFloat x)))"
proof -
  have conv: "as_float v = (if too_large v then Inl OverflowError
      else Inr (case v of PFloat x \<Rightarrow> x | _ \<Rightarrow> real_of_int (the (as_int v))))"
    if "is_number v" for v
    using that
    by (cases v) (auto simp: as_float_def too_large_def float_of_int_def is_number_def)
  have zero: "(case v of PFloat x \<Rightarrow> x | _ \<Rightarrow> real_of_int (the (as_int v))) = 0 \<longleftrightarrow> is_zero v"
    if "is_number v" for v
    using that by (cases v) (auto simp: is_zero_def is_number_def)
  show ?thesis
    unfolding page_count_floats [OF assms] conv [OF assms(3)] conv [OF assms(4)]
    using zero [OF assms(4)] by auto
qed

lemma public_search_all_after_first:
  assumes "public_search ext tr query (first_api_params params) s = (Inr page1, s1)"
  shows "(pagination page1 = None \<longrightarrow>
         public_search_all ext tr query params s = (Inr page1, s1)) \<and>
      (\<forall>pg. pagination page1 = Some pg \<longrightarrow>
         (\<forall>e. page_count_of pg (first_api_params params) = Inl e \<longrightarrow>
            public_search_all ext tr query params s = (Inl e, s1)) \<and>
         (\<forall>page_count. page_count_of pg (first_api_params params) = Inr page_count \<longrightarrow>
            (map_of pg ''hasMore'' = None \<longrightarrow>
               public_search_all ext tr query params s = (Inl (KeyError ''hasMore''), s1)) \<and>
            (\<forall>has_more. map_of pg ''hasMore'' = Some has_more \<longrightarrow>
               (\<not> truthy has_more \<longrightarrow>
                  public_search_all ext tr query params s = (Inr page1, s1)) \<and>
               (truthy has_more \<longrightarrow>
                  (\<forall>x. page_count = PFloat x \<longrightarrow>
                     public_search_all ext tr query params s = (Inl TypeError, s1)) \<and>
                  (\<forall>n. page_count = PInt n \<longrightarrow>
                     public_search_all ext tr query params s =
                       (case fetch_in_order ext tr query
                               (map (\<lambda>p. AList.update ''page'' (PInt p) (first_api_params params))
                                  [2..n - 1]) s1 of
                          (Inl e, s2) \<Rightarrow> (Inl e, s2)
                        | (Inr more_pages, s2) \<Rightarrow>
                            (Inr \<lparr>events = events page1 @ concat (map events more_pages),
                                   pagination = None\<rparr>, s2)))))))"
proof (intro conjI allI impI)
  assume "pagination page1 = None"
  then show "public_search_all ext tr query params s = (Inr page1, s1)"
    using assms by (simp add: public_search_all_def)
next
  fix pg e
  assume "pagination page1 = Some pg" "page_count_of pg (first_api_params params) = Inl e"
  then show "public_search_all ext tr query params s = (Inl e, s1)"
    using assms by (simp add: public_search_all_def)
next
  fix pg page_count
  assume "pagination page1 = Some pg" "page_count_of pg (first_api_params params) = Inr page_count"
    "map_of pg ''hasMore'' = None"
  then show "public_search_all ext tr query params s = (Inl (KeyError ''hasMore''), s1)"
    using assms by (simp add: public_search_all_def dict_item_def)
next
  fix pg page_count has_more
  assume "pagination page1 = Some pg" "page_count_of pg (first_api_params params) = Inr page_count"
    "map_of pg ''hasMore'' = Some has_more" "\<not> truthy has_more"
  then show "public_search_all ext tr query params s = (Inr page1, s1)"
    using assms by (simp add: public_search_all_def dict_item_def)
next
  fix pg page_count has_more x
  assume "pagination page1 = Some pg" "page_count_of pg (first_api_params params) = Inr page_count"
    "map_of pg ''hasMore'' = Some has_more" "truthy has_more" "page_count = PFloat x"
  then show "public_search_all ext tr query params s = (Inl TypeError, s1)"
    using assms by (simp add: public_search_all_def dict_item_def range2_def)
next
  fix pg page_count has_more n
  assume "pagination page1 = Some pg" "page_count_of pg (first_api_params params) = Inr page_count"
    "map_of pg ''hasMore'' = Some has_more" "truthy has_more" "page_count = PInt n"
  then show "public_search_all ext tr query params s =
       (case fetch_in_order ext tr query
               (map (\<lambda>p. AList.update ''page'' (PInt p) (first_api_params params)) [2..n - 1]) s1 of
          (Inl e, s2) \<Rightarrow> (Inl e, s2)
        | (Inr more_pages, s2) \<Rightarrow>
            (Inr \<lparr>events = events page1 @ concat (map events more_pages),
                   pagination = None\<rparr>, s2))"
    using assms
    by (simp add: public_search_all_def dict_item_def range2_def fetch_pages_in_order
        split: prod.splits sum.splits)
qed

lemma public_search_all_first_fails:
  "public_search ext tr query (first_api_params params) s = (Inl e, s1) \<Longrightarrow>
   public_search_all ext tr query params s = (Inl e, s1)"
  by (simp add: public_search_all_def)

lemma page_count_cases:
  assumes "map_of pg ''totalResults'' = Some t" and "map_of ap ''limit_per_type'' = Some l"
  shows "(\<not> is_number t \<or> \<not> is_number l \<longrightarrow> page_count_of pg ap = Inl TypeError) \<and>
     (\<forall>x y. as_int t = Some x \<and> as_int l = Some y \<longrightarrow>
        page_count_of pg ap =
          (if y = 0 then Inl ZeroDivisionError else Inr (PInt (x div y + 1)))) \<and>
     (is_number t \<and> is_number l \<and> (is_float t \<or> is_float l) \<longrightarrow>
        (too_large t \<or> too_large l \<longrightarrow> page_count_of pg ap = Inl OverflowError) \<and>
        (\<not> too_large t \<and> \<not> too_large l \<and> is_zero l \<longrightarrow>
           page_count_of pg ap = Inl ZeroDivisionError) \<and>
        (\<not> too_large t \<and> \<not> too_large l \<and> \<not> is_zero l \<longrightarrow>
           (\<exists>x. page_count_of pg ap = Inr (PFloat x))))"
  using page_count_not_numbers [OF assms] page_count_integers [OF assms]
    page_count_float_cases [OF assms]
  by blast

text \<open>
  C1, as amended. \<open>public_search_all\<close>, for every call. The first request carries the
  defaults \<open>page = 1\<close>, \<open>limit_per_type = 20\<close>, \<open>type = events\<close>, \<open>sort = volume_24hr\<close>, each
  overridden by the caller's parameter of that name, so that \<open>limit_per_type\<close> is always
  present. A first fetch that fails ends the call with its failure. A first page without
  pagination is returned as it is. With pagination, the page count
  \<open>totalResults // limit_per_type + 1\<close> is computed before \<open>hasMore\<close> is read, and a failure
  of that computation is the outcome of the call, whatever \<open>hasMore\<close> holds: \<open>KeyError\<close>
  without \<open>totalResults\<close>; \<open>TypeError\<close> when an operand is not a number; for two integers,
  \<open>ZeroDivisionError\<close> when the limit is zero and otherwise the floor of the quotient plus
  one; with a float among two numbers, \<open>OverflowError\<close> when an integer operand is too
  large for a float, else \<open>ZeroDivisionError\<close> when the limit is zero, else a float. With
  the count computed: a missing \<open>hasMore\<close> raises \<open>KeyError\<close>; a falsy \<open>hasMore\<close> returns the
  first page as it is; a truthy \<open>hasMore\<close> with a float count raises \<open>TypeError\<close>; a truthy
  \<open>hasMore\<close> with an integer count \<open>n\<close> fetches the pages 2 to \<open>n - 1\<close> in order, with the
  parameters of the first request and their own page number, and the result holds the
  events of the first page, then those of the fetched pages in that order, and no
  pagination; a fetch that fails ends the call with its failure.
\<close>

theorem public_search_all_pages:
  "(distinct (map fst params) \<longrightarrow>
      (\<forall>k. map_of (first_api_params params) k =
         (case map_of params k of
            Some v \<Rightarrow> Some v
          | None \<Rightarrow> map_of [(''page'', PInt 1), (''limit_per_type'', PInt 20),
                             (''type'', PStr ''events''), (''sort'', PStr ''volume_24hr'')] k))) \<and>
   (\<exists>l. map_of (first_api_params params) ''limit_per_type'' = Some l) \<and>
   (\<forall>e s1. public_search ext tr query (first_api_params params) s = (Inl e, s1) \<longrightarrow>
      public_search_all ext tr query params s = (Inl e, s1)) \<and>
   (\<forall>page1 s1. public_search ext tr query (first_api_params params) s = (Inr page1, s1) \<longrightarrow>
      (pagination page1 = None \<longrightarrow>
         public_search_all ext tr query params s = (Inr page1, s1)) \<and>
      (\<forall>pg. pagination page1 = Some pg \<longrightarrow>
         (\<forall>e. page_count_of pg (first_api_params params) = Inl e \<longrightarrow>
            public_search_all ext tr query params s = (Inl e, s1)) \<and>
         (\<forall>page_count. page_count_of pg (first_api_params params) = Inr page_count \<longrightarrow>
            (map_of pg ''hasMore'' = None \<longrightarrow>
               public_search_all ext tr query params s = (Inl (KeyError ''hasMore''), s1)) \<and>
            (\<forall>has_more. map_of pg ''hasMore'' = Some has_more \<longrightarrow>
               (\<not> truthy has_more \<longrightarrow>
                  public_search_all ext tr query params s = (Inr page1, s1)) \<and>
               (truthy has_more \<longrightarrow>
                  (\<forall>x. page_count = PFloat x \<longrightarrow>
                     public_search_all ext tr query params s = (Inl TypeError, s1)) \<and>
                  (\<forall>n. page_count = PInt n \<longrightarrow>
                     public_search_all ext tr query params s =
                       (case fetch_in_order ext tr query
                               (map (\<lambda>p. AList.update ''page'' (PInt p) (first_api_params params))
                                  [2..n - 1]) s1 of
                          (Inl e, s2) \<Rightarrow> (Inl e, s2)
                        | (Inr more_pages, s2) \<Rightarrow>
                            (Inr \<lparr>events = events page1 @ concat (map events more_pages),
                                   pagination = None\<rparr>, s2)))))))) \<and>
   (\<forall>pg. map_of pg ''totalResults'' = None \<longrightarrow>
      page_count_of pg (first_api_params params) = Inl (KeyError ''totalResults'')) \<and>
   (\<forall>pg t l. map_of pg ''totalResults'' = Some t \<and>
        map_of (first_api_params params) ''limit_per_type'' = Some l \<longrightarrow>
      (\<not> is_number t \<or> \<not> is_number l \<longrightarrow>
         page_count_of pg (first_api_params params) = Inl TypeError) \<and>
      (\<forall>x y. as_int t = Some x \<and> as_int l = Some y \<longrightarrow>
         page_count_of pg (first_api_params params) =
           (if y = 0 then Inl ZeroDivisionError else Inr (PInt (x div y + 1)))) \<and>
      (is_number t \<and> is_number l \<and> (is_float t \<or> is_float l) \<longrightarrow>
         (too_large t \<or> too_large l \<longrightarrow>
            page_count_of pg (first_api_params params) = Inl OverflowError) \<and>
         (\<not> too_large t \<and> \<not> too_large l \<and> is_zero l \<longrightarrow>
            page_count_of pg (first_api_params params) = Inl ZeroDivisionError) \<and>
         (\<not> too_large t \<and> \<not> too_large l \<and> \<not> is_zero l \<longrightarrow>
            (\<exists>x. page_count_of pg (first_api_params params) = Inr (PFloat x)))))"
proof (intro conjI)
  show "distinct (map fst params) \<longrightarrow>
      (\<forall>k. map_of (first_api_params params) k =
         (case map_of params k of
            Some v \<Rightarrow> Some v
          | None \<Rightarrow> map_of [(''page'', PInt 1), (''limit_per_type'', PInt 20),
                             (''type'', PStr ''events''), (''sort'', PStr ''volume_24hr'')] k))"
    using first_api_params_last_wins by blast
  show "\<exists>l. map_of (first_api_params params) ''limit_per_type'' = Some l"
    by (rule limit_per_type_present)
  show "\<forall>e s1. public_search ext tr query (first_api_params params) s = (Inl e, s1) \<longrightarrow>
      public_search_all ext tr query params s = (Inl e, s1)"
    by (intro allI impI, rule public_search_all_first_fails)
  show "\<forall>pg. map_of pg ''totalResults'' = None \<longrightarrow>
      page_count_of pg (first_api_params params) = Inl (KeyError ''totalResults'')"
    by (intro allI impI, rule page_count_no_total)
  show "\<forall>page1 s1. public_search ext tr query (first_api_params params) s = (Inr page1, s1) \<longrightarrow>
      (pagination page1 = None \<longrightarrow>
         public_search_all ext tr query params s = (Inr page1, s1)) \<and>
      (\<forall>pg. pagination page1 = Some pg \<longrightarrow>
         (\<forall>e. page_count_of pg (first_api_params params) = Inl e \<longrightarrow>
            public_search_all ext tr query params s = (Inl e, s1)) \<and>
         (\<forall>page_count. page_count_of pg (first_api_params params) = Inr page_count \<longrightarrow>
            (map_of pg ''hasMore'' = None \<longrightarrow>
               public_search_all ext tr query params s = (Inl (KeyError ''hasMore''), s1)) \<and>
            (\<forall>has_more. map_of pg ''hasMore'' = Some has_more \<longrightarrow>
               (\<not> truthy has_more \<longrightarrow>
                  public_search_all ext tr query params s = (Inr page1, s1)) \<and>
               (truthy has_more \<longrightarrow>
                  (\<forall>x. page_count = PFloat x \<longrightarrow>
                     public_search_all ext tr query params s = (Inl TypeError, s1)) \<and>
                  (\<forall>n. page_count = PInt n \<longrightarrow>
                     public_search_all ext tr query params s =
                       (case fetch_in_order ext tr query
                               (map (\<lambda>p. AList.update ''page'' (PInt p) (first_api_params params))
                                  [2..n - 1]) s1 of
                          (Inl e, s2) \<Rightarrow> (Inl e, s2)
                        | (Inr more_pages, s2) \<Rightarrow>
                            (Inr \<lparr>events = events page1 @ concat (map events more_pages),
                                   pagination = None\<rparr>, s2)))))))"
    by (intro allI impI, rule public_search_all_after_first)
  show "\<forall>pg t l. map_of pg ''totalResults'' = Some t \<and>
        map_of (first_api_params params) ''limit_per_type'' = Some l \<longrightarrow>
      (\<not> is_number t \<or> \<not> is_number l \<longrightarrow>
         page_count_of pg (first_api_params params) = Inl TypeError) \<and>
      (\<forall>x y. as_int t = Some x \<and> as_int l = Some y \<longrightarrow>
         page_count_of pg (first_api_params params) =
           (if y = 0 then Inl ZeroDivisionError else Inr (PInt (x div y + 1)))) \<and>
      (is_number t \<and> is_number l \<and> (is_float t \<or> is_float l) \<longrightarrow>
         (too_large t \<or> too_large l \<longrightarrow>
            page_count_of pg (first_api_params params) = Inl OverflowError) \<and>
         (\<not> too_large t \<and> \<not> too_large l \<and> is_zero l \<longrightarrow>
            page_count_of pg (first_api_params params) = Inl ZeroDivisionError) \<and>
         (\<not> too_large t \<and> \<not> too_large l \<and> \<not> is_zero l \<longrightarrow>
            (\<exists>x. page_count_of pg (first_api_params params) = Inr (PFloat x))))"
    by (intro allI impI, elim conjE, rule page_count_cases)
qed

lemma first_api_params_empty:
  "first_api_params [] =
     [(''page'', PInt 1), (''limit_per_type'', PInt 20), (''type'', PStr ''events''),
      (''sort'', PStr ''volume_24hr'')]"
  by (simp add: first_api_params_def dict_get_def)

lemma model_init_validate:
  "model_init ext name fs (PDict d) = Inr ob \<Longrightarrow> validate ext (TModel name fs) (PDict d) = Inr ob"
  by (auto simp: model_init_def split: sum.splits)

lemma PublicSearchResponse_one_event:
  assumes "PublicSearchEvent ext (PDict evd) = Inr e"
  shows "PublicSearchResponse ext (PDict [(''events'', PList [PDict evd]), (''pagination'', PDict pg)])
     = Inr \<lparr>events = [e], pagination = Some pg\<rparr>"
proof -
  have v: "validate ext (TModel ''PublicSearchEvent'' PublicSearchEvent_fields) (PDict evd) = Inr e"
    using assms unfolding PublicSearchEvent_def by (rule model_init_validate)
  have f1: "validate_field ext (Field ''events'' None
        (TList (TModel ''PublicSearchEvent'' PublicSearchEvent_fields)) (Default (PList [])))
        [(''events'', PList [PDict evd]), (''pagination'', PDict pg)] = Inr (''events'', PList [e])"
    by (simp add: lookup_field_def collect_def v del: validate.simps(9))
  have f2: "validate_field ext (Field ''pagination'' None (TOptional TDictStrAny) (Default PNone))
        [(''events'', PList [PDict evd]), (''pagination'', PDict pg)] = Inr (''pagination'', PDict pg)"
    by (simp add: lookup_field_def)
  show ?thesis
    by (simp add: PublicSearchResponse_def model_init_def PublicSearchResponse_fields_def
        collect_def f1 f2 attr_list_def attr_dict_def
        del: validate_field.simps)
qed

lemma PublicSearchResponse_no_events:
  "PublicSearchResponse ext (PDict [(''events'', PList []), (''pagination'', PDict pg)])
     = Inr \<lparr>events = [], pagination = Some pg\<rparr>"
  by (simp add: PublicSearchResponse_def model_init_def PublicSearchResponse_fields_def
      collect_def lookup_field_def attr_list_def attr_dict_def)

lemma last_page_response:
  "PublicSearchResponse ext last_page_body
     = Inr \<lparr>events = [],
             pagination = Some [(''totalResults'', PInt 45), (''hasMore'', PBool False)]\<rparr>"
  unfolding last_page_body_def by (rule PublicSearchResponse_no_events)

lemma bare_response:
  "PublicSearchResponse ext bare_body = Inr \<lparr>events = [], pagination = None\<rparr>"
  by (simp add: bare_body_def PublicSearchResponse_def model_init_def
      PublicSearchResponse_fields_def collect_def lookup_field_def attr_list_def attr_dict_def)

lemma public_search_fixed:
  assumes "PublicSearchResponse ext body = Inr page"
  shows "public_search ext (recording (fixed_server body)) ''q'' (first_api_params []) []
     = (Inr page,
        [(''/public-search'',
          Some [(''page'', PInt 1), (''limit_per_type'', PInt 20), (''type'', PStr ''events''),
                (''sort'', PStr ''volume_24hr''), (''q'', PStr ''q'')])])"
  by (simp add: public_search_def first_api_params_empty PUBLIC_SEARCH_def
      request_recording_json [where body = body] fixed_server_def assms)

lemma search_event_ok:
  "\<exists>e. PublicSearchEvent no_scalars
         (PDict [(''id'', PStr i), (''slug'', PStr ''s''), (''title'', PStr ''t'')]) = Inr e"
proof -
  have "\<not> isl (PublicSearchEvent no_scalars
         (PDict [(''id'', PStr i), (''slug'', PStr ''s''), (''title'', PStr ''t'')]))"
    by (simp add: PublicSearchEvent_def isl_model_init PublicSearchEvent_fields_def lookup_field_def)
  then show ?thesis
    by (cases "PublicSearchEvent no_scalars
         (PDict [(''id'', PStr i), (''slug'', PStr ''s''), (''title'', PStr ''t'')])") auto
qed

lemma first_api_params_zero:
  "first_api_params [(''limit_per_type'', PInt 0)] =
     [(''page'', PInt 1), (''limit_per_type'', PInt 0), (''type'', PStr ''events''),
      (''sort'', PStr ''volume_24hr'')]"
  by (simp add: first_api_params_def dict_get_def)

text \<open>
  The claim as stated fails where the page count cannot be computed: with
  \<open>limit_per_type = 0\<close> and a first page that has pagination and \<open>hasMore\<close> false, the
  call raises \<open>ZeroDivisionError\<close> instead of returning the first page.
\<close>

theorem public_search_all_raises_before_has_more:
  "public_search no_scalars (recording (fixed_server last_page_body)) ''q''
       (first_api_params [(''limit_per_type'', PInt 0)]) []
     = (Inr \<lparr>events = [],
              pagination = Some [(''totalResults'', PInt 45), (''hasMore'', PBool False)]\<rparr>,
        [(''/public-search'',
          Some [(''page'', PInt 1), (''limit_per_type'', PInt 0), (''type'', PStr ''events''),
                (''sort'', PStr ''volume_24hr''), (''q'', PStr ''q'')])]) \<and>
   public_search_all no_scalars (recording (fixed_server last_page_body)) ''q'' [(''limit_per_type'', PInt 0)] []
     = (Inl ZeroDivisionError,
        [(''/public-search'',
          Some [(''page'', PInt 1), (''limit_per_type'', PInt 0), (''type'', PStr ''events''),
                (''sort'', PStr ''volume_24hr''), (''q'', PStr ''q'')])])"
proof -
  have a: "public_search no_scalars (recording (fixed_server last_page_body)) ''q''
       (first_api_params [(''limit_per_type'', PInt 0)]) []
     = (Inr \<lparr>events = [],
              pagination = Some [(''totalResults'', PInt 45), (''hasMore'', PBool False)]\<rparr>,
        [(''/public-search'',
          Some [(''page'', PInt 1), (''limit_per_type'', PInt 0), (''type'', PStr ''events''),
                (''sort'', PStr ''volume_24hr''), (''q'', PStr ''q'')])])"
    by (simp add: public_search_def first_api_params_zero PUBLIC_SEARCH_def
        request_recording_json [where body = last_page_body] fixed_server_def
        last_page_response)
  have b: "page_count_of [(''totalResults'', PInt 45), (''hasMore'', PBool False)]
      (first_api_params [(''limit_per_type'', PInt 0)]) = Inl ZeroDivisionError"
    by (simp add: first_api_params_zero page_count_of_def dict_item_def py_floordiv_def)
  show ?thesis
    using a b by (simp add: public_search_all_def)
qed

theorem public_search_all_pages_witness:
  "\<exists>e1 e2.
     PublicSearchEvent no_scalars
       (PDict [(''id'', PStr ''1''), (''slug'', PStr ''s''), (''title'', PStr ''t'')]) = Inr e1 \<and>
     PublicSearchEvent no_scalars
       (PDict [(''id'', PStr ''2''), (''slug'', PStr ''s''), (''title'', PStr ''t'')]) = Inr e2 \<and>
     public_search_all no_scalars (recording search_server) ''q'' [] []
       = (Inr \<lparr>events = [e1, e2], pagination = None\<rparr>,
          [(''/public-search'',
            Some [(''page'', PInt 1), (''limit_per_type'', PInt 20), (''type'', PStr ''events''),
                  (''sort'', PStr ''volume_24hr''), (''q'', PStr ''q'')]),
           (''/public-search'',
            Some [(''page'', PInt 2), (''limit_per_type'', PInt 20), (''type'', PStr ''events''),
                  (''sort'', PStr ''volume_24hr''), (''q'', PStr ''q'')])]) \<and>
     public_search_all no_scalars (recording (fixed_server last_page_body)) ''q'' [] []
       = (Inr \<lparr>events = [],
                pagination = Some [(''totalResults'', PInt 45), (''hasMore'', PBool False)]\<rparr>,
          [(''/public-search'',
            Some [(''page'', PInt 1), (''limit_per_type'', PInt 20), (''type'', PStr ''events''),
                  (''sort'', PStr ''volume_24hr''), (''q'', PStr ''q'')])]) \<and>
     public_search_all no_scalars (recording (fixed_server bare_body)) ''q'' [] []
       = (Inr \<lparr>events = [], pagination = None\<rparr>,
          [(''/public-search'',
            Some [(''page'', PInt 1), (''limit_per_type'', PInt 20), (''type'', PStr ''events''),
                  (''sort'', PStr ''volume_24hr''), (''q'', PStr ''q'')])]) \<and>
     public_search_all no_scalars
         (recording (fixed_server (PDict [(''events'', PList []),
            (''pagination'', PDict [(''totalResults'', PFloat 45), (''hasMore'', PBool True)])])))
         ''q'' [] []
       = (Inl TypeError,
          [(''/public-search'',
            Some [(''page'', PInt 1), (''limit_per_type'', PInt 20), (''type'', PStr ''events''),
                  (''sort'', PStr ''volume_24hr''), (''q'', PStr ''q'')])]) \<and>
     public_search_all no_scalars
         (recording (fixed_server (PDict [(''events'', PList []),
            (''pagination'', PDict [(''totalResults'', PInt 45)])])))
         ''q'' [] []
       = (Inl (KeyError ''hasMore''),
          [(''/public-search'',
            Some [(''page'', PInt 1), (''limit_per_type'', PInt 20), (''type'', PStr ''events''),
                  (''sort'', PStr ''volume_24hr''), (''q'', PStr ''q'')])]) \<and>
     public_search_all no_scalars
         (recording (fixed_server (PDict [(''events'', PList []),
            (''pagination'', PDict [(''hasMore'', PBool False)])])))
         ''q'' [] []
       = (Inl (KeyError ''totalResults''),
          [(''/public-search'',
            Some [(''page'', PInt 1), (''limit_per_type'', PInt 20), (''type'', PStr ''events''),
                  (''sort'', PStr ''volume_24hr''), (''q'', PStr ''q'')])]) \<and>
     map_of (first_api_params [(''limit_per_type'', PInt 50), (''tag'', PStr ''politics'')])
         ''limit_per_type'' = Some (PInt 50) \<and>
     map_of (first_api_params [(''limit_per_type'', PInt 50), (''tag'', PStr ''politics'')])
         ''sort'' = Some (PStr ''volume_24hr'') \<and>
     map_of (first_api_params [(''limit_per_type'', PInt 50), (''tag'', PStr ''politics'')])
         ''tag'' = Some (PStr ''politics'')"
proof -
  let ?tr = "recording search_server"
  let ?ap = "[(''page'', PInt 1), (''limit_per_type'', PInt 20), (''type'', PStr ''events''),
      (''sort'', PStr ''volume_24hr'')]"
  let ?r1 = "[(''page'', PInt 1), (''limit_per_type'', PInt 20), (''type'', PStr ''events''),
                  (''sort'', PStr ''volume_24hr''), (''q'', PStr ''q'')]"
  let ?r2 = "[(''page'', PInt 2), (''limit_per_type'', PInt 20), (''type'', PStr ''events''),
                  (''sort'', PStr ''volume_24hr''), (''q'', PStr ''q'')]"
  let ?pg = "[(''totalResults'', PInt 45), (''hasMore'', PBool True)]"
  let ?last = "[(''totalResults'', PInt 45), (''hasMore'', PBool False)]"
  let ?ps = "[(''limit_per_type'', PInt 50), (''tag'', PStr ''politics'')]"
  obtain e1 where e1: "PublicSearchEvent no_scalars
       (PDict [(''id'', PStr ''1''), (''slug'', PStr ''s''), (''title'', PStr ''t'')]) = Inr e1"
    using search_event_ok by blast
  obtain e2 where e2: "PublicSearchEvent no_scalars
       (PDict [(''id'', PStr ''2''), (''slug'', PStr ''s''), (''title'', PStr ''t'')]) = Inr e2"
    using search_event_ok by blast
  have b1: "PublicSearchResponse no_scalars (search_body ''1'' True)
      = Inr \<lparr>events = [e1], pagination = Some ?pg\<rparr>"
    unfolding search_body_def by (rule PublicSearchResponse_one_event [OF e1])
  have b2: "PublicSearchResponse no_scalars (search_body ''2'' True)
      = Inr \<lparr>events = [e2], pagination = Some ?pg\<rparr>"
    unfolding search_body_def by (rule PublicSearchResponse_one_event [OF e2])
  have s1: "search_server ''/public-search'' (Some ?r1) = Responded (json_response 200 (search_body ''1'' True))"
    and s2: "search_server ''/public-search'' (Some ?r2) = Responded (json_response 200 (search_body ''2'' True))"
    by (simp_all add: search_server_def)
  have f1: "public_search no_scalars ?tr ''q'' (first_api_params []) []
      = (Inr \<lparr>events = [e1], pagination = Some ?pg\<rparr>, [(''/public-search'', Some ?r1)])"
    by (simp add: public_search_def first_api_params_empty PUBLIC_SEARCH_def
        request_recording_json [of search_server _ _ "search_body ''1'' True", OF s1] b1)
  have f2: "public_search no_scalars ?tr ''q'' (AList.update ''page'' (PInt 2) ?ap)
        [(''/public-search'', Some ?r1)]
      = (Inr \<lparr>events = [e2], pagination = Some ?pg\<rparr>,
         [(''/public-search'', Some ?r1), (''/public-search'', Some ?r2)])"
    by (simp add: public_search_def PUBLIC_SEARCH_def
        request_recording_json [of search_server _ _ "search_body ''2'' True", OF s2] b2)
  have pages: "[2..(3::int) - 1] = [2]"
    by (simp add: upto.simps)
  have rest: "fetch_in_order no_scalars ?tr ''q''
        (map (\<lambda>p. AList.update ''page'' (PInt p) (first_api_params [])) [2..3 - 1])
        [(''/public-search'', Some ?r1)]
      = (Inr [\<lparr>events = [e2], pagination = Some ?pg\<rparr>],
         [(''/public-search'', Some ?r1), (''/public-search'', Some ?r2)])"
    unfolding pages first_api_params_empty using f2 by simp
  have pgs: "\<And>ev p. pagination \<lparr>events = ev, pagination = Some p\<rparr> = Some p"
    by simp
  have lim: "map_of (first_api_params []) ''limit_per_type'' = Some (PInt 20)"
    by (simp add: first_api_params_empty)
  note paged = public_search_all_pages [of "[]" no_scalars ?tr "''q''" "[]", THEN conjunct2,
      THEN conjunct2, THEN conjunct2, THEN conjunct1, rule_format, OF f1, THEN conjunct2,
      rule_format, OF pgs, THEN conjunct2, rule_format]
  note count = public_search_all_pages [of "[]" no_scalars ?tr "''q''" "[]", THEN conjunct2,
      THEN conjunct2, THEN conjunct2, THEN conjunct2, THEN conjunct2, rule_format]
  have pc: "page_count_of ?pg (first_api_params []) = Inr (PInt 3)"
    using count [of ?pg "PInt 45" "PInt 20", THEN conjunct2, THEN conjunct1, rule_format,
        of 45 20] lim
    by simp
  have 1: "public_search_all no_scalars ?tr ''q'' [] []
       = (Inr \<lparr>events = [e1, e2], pagination = None\<rparr>,
          [(''/public-search'', Some ?r1), (''/public-search'', Some ?r2)])"
    using paged [OF pc, THEN conjunct2, rule_format, of "PBool True", THEN conjunct2,
        rule_format, THEN conjunct2, rule_format, of 3] rest
    by simp
  note final = public_search_all_pages [of "[]" no_scalars
      "recording (fixed_server last_page_body)" "''q''" "[]", THEN conjunct2,
      THEN conjunct2, THEN conjunct2, THEN conjunct1, rule_format,
      OF public_search_fixed [OF last_page_response], THEN conjunct2,
      rule_format, OF pgs, THEN conjunct2, rule_format]
  have pcl: "page_count_of ?last (first_api_params []) = Inr (PInt 3)"
    using count [of ?last "PInt 45" "PInt 20", THEN conjunct2, THEN conjunct1, rule_format,
        of 45 20] lim
    by simp
  have 2: "public_search_all no_scalars (recording (fixed_server last_page_body)) ''q'' [] []
       = (Inr \<lparr>events = [], pagination = Some ?last\<rparr>, [(''/public-search'', Some ?r1)])"
    using final [OF pcl, THEN conjunct2, rule_format, of "PBool False", THEN conjunct1]
    by simp
  have 3: "public_search_all no_scalars (recording (fixed_server bare_body)) ''q'' [] []
       = (Inr \<lparr>events = [], pagination = None\<rparr>, [(''/public-search'', Some ?r1)])"
    using public_search_all_pages [of "[]" no_scalars "recording (fixed_server bare_body)"
        "''q''" "[]", THEN conjunct2, THEN conjunct2, THEN conjunct2, THEN conjunct1,
        rule_format, OF public_search_fixed [OF bare_response], THEN conjunct1]
    by simp
  let ?fl = "[(''totalResults'', PFloat 45), (''hasMore'', PBool True)]"
  note floats = public_search_all_pages [of "[]" no_scalars
      "recording (fixed_server (PDict [(''events'', PList []), (''pagination'', PDict ?fl)]))"
      "''q''" "[]", THEN conjunct2, THEN conjunct2, THEN conjunct2, THEN conjunct1,
      rule_format, OF public_search_fixed [OF PublicSearchResponse_no_events], THEN conjunct2,
      rule_format, OF pgs, THEN conjunct2, rule_format]
  obtain x where pcf: "page_count_of ?fl (first_api_params []) = Inr (PFloat x)"
    using count [of ?fl "PFloat 45" "PInt 20", THEN conjunct2, THEN conjunct2] lim
    by (auto simp: is_number_def too_large_def is_zero_def)
  have 5: "public_search_all no_scalars
         (recording (fixed_server (PDict [(''events'', PList []), (''pagination'', PDict ?fl)])))
         ''q'' [] []
       = (Inl TypeError, [(''/public-search'', Some ?r1)])"
    using floats [OF pcf, THEN conjunct2, rule_format, of "PBool True", THEN conjunct2,
        rule_format, THEN conjunct1, rule_format, of x]
    by simp
  let ?nh = "[(''totalResults'', PInt 45)]"
  note nomore = public_search_all_pages [of "[]" no_scalars
      "recording (fixed_server (PDict [(''events'', PList []), (''pagination'', PDict ?nh)]))"
      "''q''" "[]", THEN conjunct2, THEN conjunct2, THEN conjunct2, THEN conjunct1,
      rule_format, OF public_search_fixed [OF PublicSearchResponse_no_events], THEN conjunct2,
      rule_format, OF pgs, THEN conjunct2, rule_format]
  have pcn: "page_count_of ?nh (first_api_params []) = Inr (PInt 3)"
    using count [of ?nh "PInt 45" "PInt 20", THEN conjunct2, THEN conjunct1, rule_format,
        of 45 20] lim
    by simp
  have 6: "public_search_all no_scalars
         (recording (fixed_server (PDict [(''events'', PList []), (''pagination'', PDict ?nh)])))
         ''q'' [] []
       = (Inl (KeyError ''hasMore''), [(''/public-search'', Some ?r1)])"
    using nomore [OF pcn, THEN conjunct1]
    by simp
  let ?nt = "[(''hasMore'', PBool False)]"
  note nototal = public_search_all_pages [of "[]" no_scalars
      "recording (fixed_server (PDict [(''events'', PList []), (''pagination'', PDict ?nt)]))"
      "''q''" "[]", THEN conjunct2, THEN conjunct2, THEN conjunct2, THEN conjunct1,
      rule_format, OF public_search_fixed [OF PublicSearchResponse_no_events], THEN conjunct2,
      rule_format, OF pgs, THEN conjunct1, rule_format]
  have pct: "page_count_of ?nt (first_api_params []) = Inl (KeyError ''totalResults'')"
    using public_search_all_pages [of "[]" no_scalars ?tr "''q''" "[]", THEN conjunct2,
      THEN conjunct2, THEN conjunct2, THEN conjunct2, THEN conjunct1, rule_format, of ?nt]
    by simp
  have 7: "public_search_all no_scalars
         (recording (fixed_server (PDict [(''events'', PList []), (''pagination'', PDict ?nt)])))
         ''q'' [] []
       = (Inl (KeyError ''totalResults''), [(''/public-search'', Some ?r1)])"
    using nototal [OF pct] .
  have d: "distinct (map fst ?ps)" by simp
  note lw = public_search_all_pages [of ?ps, THEN conjunct1, rule_format, OF d]
  have 4: "map_of (first_api_params ?ps) ''limit_per_type'' = Some (PInt 50)"
    "map_of (first_api_params ?ps) ''sort'' = Some (PStr ''volume_24hr'')"
    "map_of (first_api_params ?ps) ''tag'' = Some (PStr ''politics'')"
    by (simp_all add: lw)
  from e1 e2 1 2 3 4 5 6 7 show ?thesis by blast
qed
end
